theory Spec2Isabelle
  imports Complex_Main
begin

section \<open>The rendering context\<close>

text \<open>
  The library drives one WebGL2 context. The context is modelled by the list of the
  calls made on it so far, oldest first; what the driver answers to a
  query (object creation, completeness, validity, location lookup) is a function of that
  history, collected in \<open>gl_context\<close>. GL objects (\<open>WebGLShader\<close>,
  \<open>WebGLProgram\<close>, \<open>WebGLTexture\<close>, \<open>WebGLFramebuffer\<close>,
  \<open>WebGLUniformLocation\<close>) are handles; \<open>null\<close> is \<open>None\<close>.
  \<open>Texture\<close> objects are shared by reference between the caller, framebuffers and
  uniforms, so they live in a store indexed by references.
\<close>

type_synonym handle = nat
type_synonym tex_ref = nat

text \<open>The enumerants of the WebGL2 standard that the sources read from \<open>gl\<close>.\<close>

definition VERTEX_SHADER :: nat where "VERTEX_SHADER = 35633"
definition FRAGMENT_SHADER :: nat where "FRAGMENT_SHADER = 35632"
definition UNSIGNED_INT :: nat where "UNSIGNED_INT = 5125"
definition TEXTURE_2D :: nat where "TEXTURE_2D = 3553"
definition TEXTURE0 :: nat where "TEXTURE0 = 33984"
definition DRAW_FRAMEBUFFER :: nat where "DRAW_FRAMEBUFFER = 36009"
definition COLOR_ATTACHMENT0 :: nat where "COLOR_ATTACHMENT0 = 36064"
definition DEPTH_ATTACHMENT :: nat where "DEPTH_ATTACHMENT = 36096"
definition DEPTH_STENCIL_ATTACHMENT :: nat where "DEPTH_STENCIL_ATTACHMENT = 33306"
definition FRAMEBUFFER_COMPLETE :: nat where "FRAMEBUFFER_COMPLETE = 36053"
definition POINTS :: nat where "POINTS = 0"
definition LINES :: nat where "LINES = 1"
definition LINE_LOOP :: nat where "LINE_LOOP = 2"
definition LINE_STRIP :: nat where "LINE_STRIP = 3"
definition TRIANGLES :: nat where "TRIANGLES = 4"
definition TRIANGLE_STRIP :: nat where "TRIANGLE_STRIP = 5"
definition TRIANGLE_FAN :: nat where "TRIANGLE_FAN = 6"

text \<open>
  \<open>Texture\<close> (texture.ts is not among the sources): the fields the sources read,
  \<open>width\<close>, \<open>height\<close> and \<open>glTexture\<close>.
\<close>

record Texture =
  tex_width :: int
  tex_height :: int
  glTexture :: "handle option"

text \<open>
  The fourth argument of \<open>framebufferTexture2D\<close> as the source passes it: a GL texture
  handle (or null), or a \<open>Texture\<close> wrapper object itself. The context takes a
  \<open>WebGLTexture\<close> or null there; handed any other object it throws a TypeError.
\<close>

datatype texture_arg = GLHandle "handle option" | TextureObject tex_ref

datatype gl_call =
    DeleteShader handle
  | DrawElementsInstanced nat int nat int int
  | DrawElements nat int nat int
  | DrawArraysInstanced nat int int int
  | DrawArrays nat int int
  | Uniform1f handle real
  | Uniform1fv handle "real list"
  | Uniform1i handle real
  | Uniform1iv handle "real list"
  | Uniform1ui handle real
  | Uniform1uiv handle "real list"
  | Uniform2f handle "real option" "real option"
  | Uniform2fv handle "real list"
  | Uniform2i handle "real option" "real option"
  | Uniform2iv handle "real list"
  | Uniform2ui handle "real option" "real option"
  | Uniform2uiv handle "real list"
  | Uniform3f handle "real option" "real option" "real option"
  | Uniform3fv handle "real list"
  | Uniform3i handle "real option" "real option" "real option"
  | Uniform3iv handle "real list"
  | Uniform3ui handle "real option" "real option" "real option"
  | Uniform3uiv handle "real list"
  | Uniform4f handle "real option" "real option" "real option" "real option"
  | Uniform4fv handle "real list"
  | Uniform4i handle "real option" "real option" "real option" "real option"
  | Uniform4iv handle "real list"
  | Uniform4ui handle "real option" "real option" "real option" "real option"
  | Uniform4uiv handle "real list"
  | UniformMatrix2fv handle bool "real list"
  | UniformMatrix3fv handle bool "real list"
  | UniformMatrix4fv handle bool "real list"
  | ActiveTexture nat
  | BindTexture nat "handle option"
  | CreateFramebuffer "handle option"
  | BindFramebuffer nat "handle option"
  | FramebufferTexture2D nat nat nat texture_arg int
  | DeleteFramebuffer "handle option"
  | Viewport int int int int
  | TextureRestore tex_ref

text \<open>
  The mutable world: the calls issued so far, the binding-stack registers of the
  \<open>Device\<close>, and the store of \<open>Texture\<close> objects.
\<close>

record device =
  calls :: "gl_call list"
  stackDrawFramebuffer :: "handle option list"
  stackViewport :: "(int \<times> int \<times> int \<times> int) list"
  textures :: "tex_ref \<Rightarrow> Texture"

datatype error =
    CompileError
  | LinkError
  | MissingUniformLocation string
  | MissingAttributeLocation string
  | DimensionMismatch
  | EmptyAttachmentList
  | FramebufferIncomplete
  | TypeError

text \<open>
  What the driver answers. \<open>glutil_createShader\<close> and \<open>glutil_createProgram\<close>
  stand for the helpers of glutil.ts (not among the sources), which compile and link or throw.
\<close>

record gl_context =
  glutil_createShader :: "nat \<Rightarrow> string \<Rightarrow> error + handle"
  glutil_createProgram :: "handle \<Rightarrow> handle \<Rightarrow> error + handle"
  getUniformLocation :: "handle \<Rightarrow> string \<Rightarrow> handle option"
  getAttribLocation :: "handle \<Rightarrow> string \<Rightarrow> int"
  createFramebuffer :: "gl_call list \<Rightarrow> handle option"
  checkFramebufferStatus :: "gl_call list \<Rightarrow> nat"
  isFramebuffer :: "gl_call list \<Rightarrow> handle option \<Rightarrow> bool"
  restoredTexture :: "gl_call list \<Rightarrow> tex_ref \<Rightarrow> handle option"

definition issue :: "gl_call \<Rightarrow> device \<Rightarrow> device" where
  "issue c dev = dev\<lparr>calls := calls dev @ [c]\<rparr>"

section \<open>command.ts\<close>

subsection \<open>Data\<close>

datatype Primitive =
    Triangles | TriangleStrip | TriangleFan | Points | Lines | LineStrip | LineLoop

text \<open>\<open>AccessorOrValue<P, R> = Accessor<P, R> | R\<close>\<close>

datatype ('p, 'r) AccessorOrValue = Accessor "'p \<Rightarrow> 'r" | Value 'r

text \<open>
  The tagged union \<open>Uniform<P>\<close>: one constructor per \<open>type\<close> tag, carrying the
  \<open>value\<close> field. Arrays and typed arrays of numbers are lists.
\<close>

datatype 'p Uniform =
    U1f "('p, real) AccessorOrValue"
  | U1fv "('p, real list) AccessorOrValue"
  | U1i "('p, real) AccessorOrValue"
  | U1iv "('p, real list) AccessorOrValue"
  | U1ui "('p, real) AccessorOrValue"
  | U1uiv "('p, real list) AccessorOrValue"
  | U2f "('p, real list) AccessorOrValue"
  | U2fv "('p, real list) AccessorOrValue"
  | U2i "('p, real list) AccessorOrValue"
  | U2iv "('p, real list) AccessorOrValue"
  | U2ui "('p, real list) AccessorOrValue"
  | U2uiv "('p, real list) AccessorOrValue"
  | U3f "('p, real list) AccessorOrValue"
  | U3fv "('p, real list) AccessorOrValue"
  | U3i "('p, real list) AccessorOrValue"
  | U3iv "('p, real list) AccessorOrValue"
  | U3ui "('p, real list) AccessorOrValue"
  | U3uiv "('p, real list) AccessorOrValue"
  | U4f "('p, real list) AccessorOrValue"
  | U4fv "('p, real list) AccessorOrValue"
  | U4i "('p, real list) AccessorOrValue"
  | U4iv "('p, real list) AccessorOrValue"
  | U4ui "('p, real list) AccessorOrValue"
  | U4uiv "('p, real list) AccessorOrValue"
  | UMatrix2fv "('p, real list) AccessorOrValue"
  | UMatrix3fv "('p, real list) AccessorOrValue"
  | UMatrix4fv "('p, real list) AccessorOrValue"
  | UTexture "('p, tex_ref) AccessorOrValue"

record ClearInfo =
  clear_color :: "(real \<times> real \<times> real \<times> real) option"
  clear_depth :: "real option"
  clear_stencil :: "real option"

text \<open>
  \<open>CommandProps<P>\<close>. An optional field is an \<open>option\<close>. \<open>uniforms\<close> holds the
  entries of the object in the order \<open>Object.entries\<close> enumerates them.
\<close>

record 'p CommandProps =
  vert :: string
  frag :: string
  uniforms :: "(string \<times> 'p Uniform) list option"
  primitive :: "Primitive option"
  clear :: "ClearInfo option"

text \<open>
  \<open>UniformInfo<P>\<close>, with its fields \<open>identifier\<close>, \<open>location\<close> and
  \<open>definition\<close> (the first and the last are reserved words here, hence the prefix).
\<close>

record 'p UniformInfo =
  ui_identifier :: string
  ui_location :: handle
  ui_definition :: "'p Uniform"

record 'p Command =
  glProgram :: handle
  glPrimitive :: nat
  uniformInfo :: "'p UniformInfo list"
  clearInfo :: "ClearInfo option"

subsection \<open>Command.create\<close>

fun mapGlPrimitive :: "Primitive \<Rightarrow> nat" where
  "mapGlPrimitive Triangles = TRIANGLES"
| "mapGlPrimitive TriangleStrip = TRIANGLE_STRIP"
| "mapGlPrimitive TriangleFan = TRIANGLE_FAN"
| "mapGlPrimitive Points = POINTS"
| "mapGlPrimitive Lines = LINES"
| "mapGlPrimitive LineStrip = LINE_STRIP"
| "mapGlPrimitive LineLoop = LINE_LOOP"

text \<open>
  \<open>Object.entries(uniforms).map(...)\<close>: the entries are visited in order, and the first
  one whose lookup is falsy (null) throws \<open>Error("No location for uniform: " + identifier)\<close>.
\<close>

fun locateUniforms ::
  "gl_context \<Rightarrow> handle \<Rightarrow> (string \<times> 'p Uniform) list \<Rightarrow> error + 'p UniformInfo list" where
  "locateUniforms gl program [] = Inr []"
| "locateUniforms gl program ((ident, uniform) # rest) =
     (case getUniformLocation gl program ident of
        None \<Rightarrow> Inl (MissingUniformLocation ident)
      | Some loc \<Rightarrow>
          (case locateUniforms gl program rest of
             Inl e \<Rightarrow> Inl e
           | Inr infos \<Rightarrow> Inr (\<lparr>ui_identifier = ident, ui_location = loc, ui_definition = uniform\<rparr> # infos)))"

definition Command_create ::
  "gl_context \<Rightarrow> 'p CommandProps \<Rightarrow> device \<Rightarrow> (error + 'p Command) \<times> device" where
  "Command_create gl props dev =
     (case glutil_createShader gl VERTEX_SHADER (vert props) of
        Inl e \<Rightarrow> (Inl e, dev)
      | Inr vertShader \<Rightarrow>
     (case glutil_createShader gl FRAGMENT_SHADER (frag props) of
        Inl e \<Rightarrow> (Inl e, dev)
      | Inr fragShader \<Rightarrow>
     (case glutil_createProgram gl vertShader fragShader of
        Inl e \<Rightarrow> (Inl e, dev)
      | Inr program \<Rightarrow>
          (let dev1 = issue (DeleteShader vertShader) dev;
               dev2 = issue (DeleteShader fragShader) dev1
           in case locateUniforms gl program
                     (case uniforms props of None \<Rightarrow> [] | Some us \<Rightarrow> us) of
                Inl e \<Rightarrow> (Inl e, dev2)
              | Inr infos \<Rightarrow>
                  (Inr \<lparr>glProgram = program,
                        glPrimitive = mapGlPrimitive
                          (case primitive props of None \<Rightarrow> Triangles | Some p \<Rightarrow> p),
                        uniformInfo = infos,
                        clearInfo = Some (case clear props of
                                            None \<Rightarrow> \<lparr>clear_color = None, clear_depth = None, clear_stencil = None\<rparr>
                                          | Some c \<Rightarrow> c)\<rparr>,
                   dev2)))))"

subsection \<open>Command.locate\<close>

text \<open>
  \<open>INT_PATTERN = /^0|[1-9]\d*$/\<close>. Alternation binds weakest, so the pattern has two
  alternatives: \<open>^0\<close> (a \<open>0\<close> at the start of the input) and \<open>[1-9]\d*$\<close> (a nonzero
  digit followed by digits up to the end of the input). \<open>test\<close> searches for a match
  starting at any index.
\<close>

definition is_digit :: "char \<Rightarrow> bool" where
  "is_digit c = (c \<in> set ''0123456789'')"

definition is_nonzero_digit :: "char \<Rightarrow> bool" where
  "is_nonzero_digit c = (c \<in> set ''123456789'')"

fun match_first_alt :: "string \<Rightarrow> bool" where
  "match_first_alt [] = False"
| "match_first_alt (c # cs) = (c = CHR ''0'')"

fun match_second_alt_here :: "string \<Rightarrow> bool" where
  "match_second_alt_here [] = False"
| "match_second_alt_here (c # cs) = (is_nonzero_digit c \<and> list_all is_digit cs)"

fun match_second_alt :: "string \<Rightarrow> bool" where
  "match_second_alt [] = False"
| "match_second_alt (c # cs) = (match_second_alt_here (c # cs) \<or> match_second_alt cs)"

definition INT_PATTERN_test :: "string \<Rightarrow> bool" where
  "INT_PATTERN_test s = (match_first_alt s \<or> match_second_alt s)"

definition UNKNOWN_ATTRIB_LOCATION :: int where
  "UNKNOWN_ATTRIB_LOCATION = - 1"

text \<open>
  A property key is a string: \<open>accum[location]\<close> with a number stores under the decimal
  numeral of the number.
\<close>

function string_of_nat :: "nat \<Rightarrow> string" where
  "string_of_nat n =
     (if n < 10 then [''0123456789'' ! n]
      else string_of_nat (n div 10) @ [''0123456789'' ! (n mod 10)])"
  by pat_completeness auto
termination
  by (relation "measure id") auto

definition property_key :: "int \<Rightarrow> string" where
  "property_key i = (if i < 0 then CHR ''-'' # string_of_nat (nat (- i)) else string_of_nat (nat i))"

text \<open>
  The reducer of \<open>locate\<close> over \<open>Object.entries(attributes)\<close>; the accumulator object
  is a map from property keys.
\<close>

fun locate_reduce ::
  "gl_context \<Rightarrow> handle \<Rightarrow> (string \<rightharpoonup> 'd) \<Rightarrow> (string \<times> 'd) list \<Rightarrow> error + (string \<rightharpoonup> 'd)" where
  "locate_reduce gl program accum [] = Inr accum"
| "locate_reduce gl program accum ((ident, definition) # rest) =
     (if INT_PATTERN_test ident then locate_reduce gl program (accum(ident \<mapsto> definition)) rest
      else (let loc = getAttribLocation gl program ident
            in if loc = UNKNOWN_ATTRIB_LOCATION then Inl (MissingAttributeLocation ident)
               else locate_reduce gl program (accum(property_key loc \<mapsto> definition)) rest))"

text \<open>
  \<open>VertexArrayProps\<close> going in (\<open>attributes\<close> as its entries, \<open>elements\<close>) and coming
  out (the located attributes object, \<open>elements\<close> unchanged).
\<close>

definition Command_locate ::
  "gl_context \<Rightarrow> 'p Command \<Rightarrow> (string \<times> 'd) list \<times> 'e \<Rightarrow> error + ((string \<rightharpoonup> 'd) \<times> 'e)" where
  "Command_locate gl cmd props =
     (case locate_reduce gl (glProgram cmd) Map.empty (fst props) of
        Inl e \<Rightarrow> Inl e
      | Inr locatedAttributes \<Rightarrow> Inr (locatedAttributes, snd props))"

subsection \<open>Command.draw\<close>

text \<open>\<open>if (instCount)\<close> on a number: true unless the number is zero.\<close>

definition Command_draw :: "'p Command \<Rightarrow> bool \<Rightarrow> int \<Rightarrow> int \<Rightarrow> device \<Rightarrow> device" where
  "Command_draw cmd hasElements count instCount dev =
     (if hasElements then
        (if instCount \<noteq> 0 then
           issue (DrawElementsInstanced (glPrimitive cmd) count UNSIGNED_INT 0 instCount) dev
         else
           issue (DrawElements (glPrimitive cmd) count UNSIGNED_INT 0) dev)
      else
        (if instCount \<noteq> 0 then
           issue (DrawArraysInstanced (glPrimitive cmd) 0 count instCount) dev
         else
           issue (DrawArrays (glPrimitive cmd) 0 count) dev))"

subsection \<open>Command.updateUniforms\<close>

fun access :: "'p \<Rightarrow> ('p, 'r) AccessorOrValue \<Rightarrow> 'r" where
  "access props (Accessor f) = f props"
| "access props (Value v) = v"

text \<open>An array destructuring \<open>[x, y] = a\<close> reads \<open>a[0]\<close>, \<open>a[1]\<close>; past the end it is undefined.\<close>

definition elem :: "real list \<Rightarrow> nat \<Rightarrow> real option" where
  "elem a i = (if i < length a then Some (a ! i) else None)"

text \<open>
  The body of the \<open>forEach\<close> callback: the state is the closure variable
  \<open>textureUnitOffset\<close> and the context.
\<close>

fun updateUniform :: "'p \<Rightarrow> 'p UniformInfo \<Rightarrow> nat \<times> device \<Rightarrow> nat \<times> device" where
  "updateUniform props ui (textureUnitOffset, dev) =
     (let loc = ui_location ui in
      case ui_definition ui of
        U1f v \<Rightarrow> (textureUnitOffset, issue (Uniform1f loc (access props v)) dev)
      | U1fv v \<Rightarrow> (textureUnitOffset, issue (Uniform1fv loc (access props v)) dev)
      | U1i v \<Rightarrow> (textureUnitOffset, issue (Uniform1i loc (access props v)) dev)
      | U1iv v \<Rightarrow> (textureUnitOffset, issue (Uniform1iv loc (access props v)) dev)
      | U1ui v \<Rightarrow> (textureUnitOffset, issue (Uniform1ui loc (access props v)) dev)
      | U1uiv v \<Rightarrow> (textureUnitOffset, issue (Uniform1uiv loc (access props v)) dev)
      | U2f v \<Rightarrow> (let a = access props v
                  in (textureUnitOffset, issue (Uniform2f loc (elem a 0) (elem a 1)) dev))
      | U2fv v \<Rightarrow> (textureUnitOffset, issue (Uniform2fv loc (access props v)) dev)
      | U2i v \<Rightarrow> (let a = access props v
                  in (textureUnitOffset, issue (Uniform2i loc (elem a 0) (elem a 1)) dev))
      | U2iv v \<Rightarrow> (textureUnitOffset, issue (Uniform2iv loc (access props v)) dev)
      | U2ui v \<Rightarrow> (let a = access props v
                   in (textureUnitOffset, issue (Uniform2ui loc (elem a 0) (elem a 1)) dev))
      | U2uiv v \<Rightarrow> (textureUnitOffset, issue (Uniform2uiv loc (access props v)) dev)
      | U3f v \<Rightarrow> (let a = access props v
                  in (textureUnitOffset,
                      issue (Uniform3f loc (elem a 0) (elem a 1) (elem a 2)) dev))
      | U3fv v \<Rightarrow> (textureUnitOffset, issue (Uniform3fv loc (access props v)) dev)
      | U3i v \<Rightarrow> (let a = access props v
                  in (textureUnitOffset,
                      issue (Uniform3i loc (elem a 0) (elem a 1) (elem a 2)) dev))
      | U3iv v \<Rightarrow> (textureUnitOffset, issue (Uniform3iv loc (access props v)) dev)
      | U3ui v \<Rightarrow> (let a = access props v
                   in (textureUnitOffset,
                       issue (Uniform3ui loc (elem a 0) (elem a 1) (elem a 2)) dev))
      | U3uiv v \<Rightarrow> (textureUnitOffset, issue (Uniform3uiv loc (access props v)) dev)
      | U4f v \<Rightarrow> (let a = access props v
                  in (textureUnitOffset,
                      issue (Uniform4f loc (elem a 0) (elem a 1) (elem a 2) (elem a 3)) dev))
      | U4fv v \<Rightarrow> (textureUnitOffset, issue (Uniform4fv loc (access props v)) dev)
      | U4i v \<Rightarrow> (let a = access props v
                  in (textureUnitOffset,
                      issue (Uniform4i loc (elem a 0) (elem a 1) (elem a 2) (elem a 3)) dev))
      | U4iv v \<Rightarrow> (textureUnitOffset, issue (Uniform4iv loc (access props v)) dev)
      | U4ui v \<Rightarrow> (let a = access props v
                   in (textureUnitOffset,
                       issue (Uniform4ui loc (elem a 0) (elem a 1) (elem a 2) (elem a 3)) dev))
      | U4uiv v \<Rightarrow> (textureUnitOffset, issue (Uniform4uiv loc (access props v)) dev)
      | UMatrix2fv v \<Rightarrow>
          (textureUnitOffset, issue (UniformMatrix2fv loc False (access props v)) dev)
      | UMatrix3fv v \<Rightarrow>
          (textureUnitOffset, issue (UniformMatrix3fv loc False (access props v)) dev)
      | UMatrix4fv v \<Rightarrow>
          (textureUnitOffset, issue (UniformMatrix4fv loc False (access props v)) dev)
      | UTexture v \<Rightarrow>
          (let texture = access props v;
               currentTexture = textureUnitOffset;
               dev1 = issue (ActiveTexture (TEXTURE0 + currentTexture)) dev;
               dev2 = issue (BindTexture TEXTURE_2D (glTexture (textures dev1 texture))) dev1
           in (Suc textureUnitOffset, issue (Uniform1i loc (real currentTexture)) dev2)))"

definition Command_updateUniforms :: "'p Command \<Rightarrow> 'p \<Rightarrow> device \<Rightarrow> device" where
  "Command_updateUniforms cmd props dev =
     snd (foldl (\<lambda>st ui. updateUniform props ui st) (0, dev) (uniformInfo cmd))"

section \<open>device.ts (not among the sources)\<close>

text \<open>
  Modelled from the spec: the push and pop operations of the \<open>Device\<close>'s draw-framebuffer
  and viewport binding-stack registers (device.ts is missing). A push records the value on
  the register and binds it; a pop removes the top and binds what is below it again (the
  default surface below the bottom); a pop on an empty register does nothing.
\<close>

definition stackDrawFramebuffer_push :: "handle option \<Rightarrow> device \<Rightarrow> device" where
  "stackDrawFramebuffer_push fbo dev =
     issue (BindFramebuffer DRAW_FRAMEBUFFER fbo)
       (dev\<lparr>stackDrawFramebuffer := fbo # stackDrawFramebuffer dev\<rparr>)"

definition stackDrawFramebuffer_pop :: "device \<Rightarrow> device" where
  "stackDrawFramebuffer_pop dev =
     (case stackDrawFramebuffer dev of
        [] \<Rightarrow> dev
      | cur # below \<Rightarrow>
          issue (BindFramebuffer DRAW_FRAMEBUFFER (case below of [] \<Rightarrow> None | prev # _ \<Rightarrow> prev))
            (dev\<lparr>stackDrawFramebuffer := below\<rparr>))"

definition stackViewport_push :: "int \<times> int \<times> int \<times> int \<Rightarrow> device \<Rightarrow> device" where
  "stackViewport_push v dev =
     (case v of (x, y, w, h) \<Rightarrow>
        issue (Viewport x y w h) (dev\<lparr>stackViewport := v # stackViewport dev\<rparr>))"

definition stackViewport_pop :: "device \<Rightarrow> device" where
  "stackViewport_pop dev =
     (case stackViewport dev of
        [] \<Rightarrow> dev
      | cur # below \<Rightarrow>
          (case below of
             [] \<Rightarrow> dev\<lparr>stackViewport := below\<rparr>
           | (x, y, w, h) # _ \<Rightarrow> issue (Viewport x y w h) (dev\<lparr>stackViewport := below\<rparr>)))"

text \<open>
  Modelled from the spec: \<open>Target\<close> (device.ts is missing), a value object holding an
  ordered list of color-attachment slots, a framebuffer handle and dimensions, as
  \<open>new Target(dev, glColorAttachments, fbo, width, height)\<close> builds it.
\<close>

record Target =
  target_glDrawBuffers :: "nat list"
  target_glFramebuffer :: "handle option"
  target_width :: int
  target_height :: int

type_synonym callback = "Target \<Rightarrow> device \<Rightarrow> (error + unit) \<times> device"

text \<open>
  Modelled from the spec: \<open>Target.with(callback)\<close> (device.ts is missing), the
  scoped-acquire pattern: it binds this target's framebuffer and viewport, runs the
  callback, and unbinds on every exit path, a failure of the callback included.
\<close>

definition Target_with :: "Target \<Rightarrow> callback \<Rightarrow> device \<Rightarrow> (error + unit) \<times> device" where
  "Target_with t cb dev =
     (let dev1 = stackDrawFramebuffer_push (target_glFramebuffer t) dev;
          dev2 = stackViewport_push (0, 0, target_width t, target_height t) dev1
      in case cb t dev2 of
           (r, dev3) \<Rightarrow> (r, stackDrawFramebuffer_pop (stackViewport_pop dev3)))"

text \<open>
  Modelled from the spec: \<open>Texture.restore()\<close> (texture.ts is missing), which
  reinitializes the GPU-side storage of the texture. The invocation is recorded, and the
  texture object then holds the handle the driver gives it; its size stays.
\<close>

definition Texture_restore :: "gl_context \<Rightarrow> tex_ref \<Rightarrow> device \<Rightarrow> device" where
  "Texture_restore gl t dev =
     (let h = restoredTexture gl (calls dev) t
      in issue (TextureRestore t)
           (dev\<lparr>textures := (textures dev)(t := (textures dev t)\<lparr>glTexture := h\<rparr>)\<rparr>))"

text \<open>
  Modelled from the spec: \<open>assert.nonEmpty\<close> and \<open>assert.equal\<close> (util/assert.ts is
  missing): an empty list where color attachments are required fails with
  EmptyAttachmentList, a size that disagrees fails with DimensionMismatch.
\<close>

definition assert_nonEmpty :: "'a list \<Rightarrow> error + unit" where
  "assert_nonEmpty xs = (if xs = [] then Inl EmptyAttachmentList else Inr ())"

definition assert_equal :: "int \<Rightarrow> int \<Rightarrow> error + unit" where
  "assert_equal expected actual = (if expected = actual then Inr () else Inl DimensionMismatch)"

section \<open>framebuffer.ts\<close>

record Framebuffer =
  width :: int
  height :: int
  glFramebuffer :: "handle option"
  glColorAttachments :: "nat list"
  framebufferTarget :: "Target option"
  colors :: "tex_ref list"
  depthStencil :: "tex_ref option"
  depthOnly :: bool

subsection \<open>init\<close>

text \<open>
  \<open>gl.framebufferTexture2D(target, attachment, textarget, texture, level)\<close>. The call
  is recorded as it is made. With a GL handle or null it returns; with a \<open>Texture\<close>
  wrapper object the context throws a TypeError and attaches nothing.
\<close>

definition framebufferTexture2D ::
  "nat \<Rightarrow> nat \<Rightarrow> nat \<Rightarrow> texture_arg \<Rightarrow> int \<Rightarrow> device \<Rightarrow> (error + unit) \<times> device" where
  "framebufferTexture2D target attachment textarget texture level dev =
     ((case texture of GLHandle h \<Rightarrow> Inr () | TextureObject t \<Rightarrow> Inl TypeError),
      issue (FramebufferTexture2D target attachment textarget texture level) dev)"

text \<open>
  \<open>colors.forEach((buffer, i) => gl.framebufferTexture2D(...))\<close>, from index \<open>i\<close> on;
  a throw ends the loop.
\<close>

fun attachColors :: "tex_ref list \<Rightarrow> nat \<Rightarrow> device \<Rightarrow> (error + unit) \<times> device" where
  "attachColors [] i dev = (Inr (), dev)"
| "attachColors (buffer # rest) i dev =
     (case framebufferTexture2D DRAW_FRAMEBUFFER (COLOR_ATTACHMENT0 + i) TEXTURE_2D
             (GLHandle (glTexture (textures dev buffer))) 0 dev of
        (Inl e, dev') \<Rightarrow> (Inl e, dev')
      | (Inr u, dev') \<Rightarrow> attachColors rest (Suc i) dev')"

text \<open>
  The first part of \<open>init\<close>, up to the completeness check: the framebuffer object is
  created and pushed, the color textures and then the depth or depth-stencil texture are
  attached. The depth attachment passes \<open>depthStencil\<close> itself. There is no
  \<open>try\<close> in \<open>init\<close>: a throw leaves it at once, with the world as it is at the throw.
\<close>

definition init_attach ::
  "gl_context \<Rightarrow> Framebuffer \<Rightarrow> device \<Rightarrow> (error + handle option) \<times> device" where
  "init_attach gl fb dev =
     (let fbo = createFramebuffer gl (calls dev);
          dev1 = issue (CreateFramebuffer fbo) dev;
          dev2 = stackDrawFramebuffer_push fbo dev1
      in case attachColors (colors fb) 0 dev2 of
           (Inl e, dev3) \<Rightarrow> (Inl e, dev3)
         | (Inr u, dev3) \<Rightarrow>
             (case depthStencil fb of
                None \<Rightarrow> (Inr fbo, dev3)
              | Some ds \<Rightarrow>
                  (case framebufferTexture2D DRAW_FRAMEBUFFER
                          (if depthOnly fb then DEPTH_ATTACHMENT else DEPTH_STENCIL_ATTACHMENT)
                          TEXTURE_2D (TextureObject ds) 0 dev3 of
                     (Inl e, dev4) \<Rightarrow> (Inl e, dev4)
                   | (Inr u, dev4) \<Rightarrow> (Inr fbo, dev4))))"

text \<open>
  \<open>init\<close>: the result, the framebuffer object \<open>this\<close> after the call, and the
  world after the call. A throw leaves \<open>this\<close> and the world as they are at the throw.
\<close>

definition Framebuffer_init ::
  "gl_context \<Rightarrow> Framebuffer \<Rightarrow> device \<Rightarrow> (error + unit) \<times> Framebuffer \<times> device" where
  "Framebuffer_init gl fb dev =
     (case init_attach gl fb dev of
        (Inl e, dev4) \<Rightarrow> (Inl e, fb, dev4)
      | (Inr fbo, dev4) \<Rightarrow>
          (let status = checkFramebufferStatus gl (calls dev4);
               dev5 = stackDrawFramebuffer_pop dev4
           in if status \<noteq> FRAMEBUFFER_COMPLETE then
                (Inl FramebufferIncomplete, fb, issue (DeleteFramebuffer fbo) dev5)
              else
                (let fb1 = fb\<lparr>glFramebuffer := fbo\<rparr>
                 in case fbo of
                      None \<Rightarrow> (Inr (), fb1, dev5)
                    | Some _ \<Rightarrow>
                        (Inr (),
                         fb1\<lparr>framebufferTarget :=
                               Some \<lparr>target_glDrawBuffers = glColorAttachments fb,
                                     target_glFramebuffer = fbo,
                                     target_width = width fb,
                                     target_height = height fb\<rparr>\<rparr>,
                         dev5))))"

subsection \<open>The constructor and the factories\<close>

text \<open>The private constructor; \<open>depthOnly\<close> defaults to true.\<close>

definition Framebuffer_new ::
  "gl_context \<Rightarrow> device \<Rightarrow> int \<Rightarrow> int \<Rightarrow> tex_ref list \<Rightarrow> tex_ref option \<Rightarrow> bool option
     \<Rightarrow> (error + Framebuffer) \<times> device" where
  "Framebuffer_new gl dev w h cols ds dOnly =
     (case Framebuffer_init gl
             \<lparr>width = w, height = h, glFramebuffer = None,
              glColorAttachments = map (\<lambda>i. COLOR_ATTACHMENT0 + i) [0..<length cols],
              framebufferTarget = None, colors = cols, depthStencil = ds,
              depthOnly = (case dOnly of None \<Rightarrow> True | Some b \<Rightarrow> b)\<rparr> dev of
        (Inl e, fb, dev') \<Rightarrow> (Inl e, dev')
      | (Inr u, fb, dev') \<Rightarrow> (Inr fb, dev'))"

text \<open>\<open>color: Texture | Texture[]\<close>\<close>

datatype color_arg = Single tex_ref | Many "tex_ref list"

fun color_list :: "color_arg \<Rightarrow> tex_ref list" where
  "color_list (Many cs) = cs"
| "color_list (Single c) = [c]"

text \<open>\<open>assert.equal(width, buffer.width, "width"); assert.equal(height, buffer.height, "height")\<close>\<close>

definition assert_size :: "device \<Rightarrow> int \<Rightarrow> int \<Rightarrow> tex_ref \<Rightarrow> error + unit" where
  "assert_size dev w h buffer =
     (case assert_equal w (tex_width (textures dev buffer)) of
        Inl e \<Rightarrow> Inl e
      | Inr u \<Rightarrow> assert_equal h (tex_height (textures dev buffer)))"

fun assert_sizes :: "device \<Rightarrow> int \<Rightarrow> int \<Rightarrow> tex_ref list \<Rightarrow> error + unit" where
  "assert_sizes dev w h [] = Inr ()"
| "assert_sizes dev w h (buffer # rest) =
     (case assert_size dev w h buffer of
        Inl e \<Rightarrow> Inl e
      | Inr u \<Rightarrow> assert_sizes dev w h rest)"

definition Framebuffer_withColor ::
  "gl_context \<Rightarrow> device \<Rightarrow> int \<Rightarrow> int \<Rightarrow> color_arg \<Rightarrow> (error + Framebuffer) \<times> device" where
  "Framebuffer_withColor gl dev w h color =
     (let cols = color_list color
      in case assert_nonEmpty cols of
           Inl e \<Rightarrow> (Inl e, dev)
         | Inr u \<Rightarrow>
             (case assert_sizes dev w h cols of
                Inl e \<Rightarrow> (Inl e, dev)
              | Inr u \<Rightarrow> Framebuffer_new gl dev w h cols None None))"

definition Framebuffer_withDepth ::
  "gl_context \<Rightarrow> device \<Rightarrow> int \<Rightarrow> int \<Rightarrow> tex_ref \<Rightarrow> (error + Framebuffer) \<times> device" where
  "Framebuffer_withDepth gl dev w h depth =
     (case assert_size dev w h depth of
        Inl e \<Rightarrow> (Inl e, dev)
      | Inr u \<Rightarrow> Framebuffer_new gl dev w h [] (Some depth) (Some True))"

definition Framebuffer_withDepthStencil ::
  "gl_context \<Rightarrow> device \<Rightarrow> int \<Rightarrow> int \<Rightarrow> tex_ref \<Rightarrow> (error + Framebuffer) \<times> device" where
  "Framebuffer_withDepthStencil gl dev w h ds =
     (case assert_size dev w h ds of
        Inl e \<Rightarrow> (Inl e, dev)
      | Inr u \<Rightarrow> Framebuffer_new gl dev w h [] (Some ds) (Some False))"

definition Framebuffer_withColorDepth ::
  "gl_context \<Rightarrow> device \<Rightarrow> int \<Rightarrow> int \<Rightarrow> color_arg \<Rightarrow> tex_ref
     \<Rightarrow> (error + Framebuffer) \<times> device" where
  "Framebuffer_withColorDepth gl dev w h color depth =
     (let colorBuffers = color_list color
      in case assert_nonEmpty colorBuffers of
           Inl e \<Rightarrow> (Inl e, dev)
         | Inr u \<Rightarrow>
             (case assert_sizes dev w h colorBuffers of
                Inl e \<Rightarrow> (Inl e, dev)
              | Inr u \<Rightarrow>
                  (case assert_size dev w h depth of
                     Inl e \<Rightarrow> (Inl e, dev)
                   | Inr u \<Rightarrow> Framebuffer_new gl dev w h colorBuffers (Some depth) (Some True))))"

definition Framebuffer_withColorDepthStencil ::
  "gl_context \<Rightarrow> device \<Rightarrow> int \<Rightarrow> int \<Rightarrow> color_arg \<Rightarrow> tex_ref
     \<Rightarrow> (error + Framebuffer) \<times> device" where
  "Framebuffer_withColorDepthStencil gl dev w h color ds =
     (let cols = color_list color
      in case assert_nonEmpty cols of
           Inl e \<Rightarrow> (Inl e, dev)
         | Inr u \<Rightarrow>
             (case assert_sizes dev w h cols of
                Inl e \<Rightarrow> (Inl e, dev)
              | Inr u \<Rightarrow>
                  (case assert_size dev w h ds of
                     Inl e \<Rightarrow> (Inl e, dev)
                   | Inr u \<Rightarrow> Framebuffer_new gl dev w h cols (Some ds) (Some False))))"

subsection \<open>restore and target\<close>

text \<open>\<open>colors.forEach(buffer => buffer.restore())\<close>\<close>

fun restoreColors :: "gl_context \<Rightarrow> tex_ref list \<Rightarrow> device \<Rightarrow> device" where
  "restoreColors gl [] dev = dev"
| "restoreColors gl (buffer # rest) dev = restoreColors gl rest (Texture_restore gl buffer dev)"

text \<open>The attachments' part of \<open>restore\<close>: every color texture, then the depth texture if any.\<close>

definition restore_attachments :: "gl_context \<Rightarrow> Framebuffer \<Rightarrow> device \<Rightarrow> device" where
  "restore_attachments gl fb dev =
     (let dev1 = restoreColors gl (colors fb) dev
      in case depthStencil fb of
           None \<Rightarrow> dev1
         | Some ds \<Rightarrow> Texture_restore gl ds dev1)"

definition Framebuffer_restore ::
  "gl_context \<Rightarrow> Framebuffer \<Rightarrow> device \<Rightarrow> (error + unit) \<times> Framebuffer \<times> device" where
  "Framebuffer_restore gl fb dev =
     (let dev2 = restore_attachments gl fb dev
      in if \<not> isFramebuffer gl (calls dev2) (glFramebuffer fb) then Framebuffer_init gl fb dev2
         else (Inr (), fb, dev2))"

definition Framebuffer_target :: "Framebuffer \<Rightarrow> callback \<Rightarrow> device \<Rightarrow> (error + unit) \<times> device" where
  "Framebuffer_target fb cb dev =
     (case framebufferTarget fb of
        None \<Rightarrow> (Inr (), dev)
      | Some t \<Rightarrow> Target_with t cb dev)"

section \<open>Notions used in the statements\<close>

text \<open>A texture-typed uniform, and how many of a list of bindings are texture-typed.\<close>

fun is_texture :: "'p Uniform \<Rightarrow> bool" where
  "is_texture (UTexture v) = True"
| "is_texture u = False"

definition texture_count :: "'p UniformInfo list \<Rightarrow> nat" where
  "texture_count infos = length (filter (\<lambda>ui. is_texture (ui_definition ui)) infos)"

fun is_ActiveTexture :: "gl_call \<Rightarrow> bool" where
  "is_ActiveTexture (ActiveTexture u) = True"
| "is_ActiveTexture c = False"

fun is_CreateFramebuffer :: "gl_call \<Rightarrow> bool" where
  "is_CreateFramebuffer (CreateFramebuffer fbo) = True"
| "is_CreateFramebuffer c = False"

text \<open>
  The calls one binding issues when the texture unit offset is \<open>k\<close>, and the calls a list
  of bindings issues from offset \<open>k\<close> on: what \<open>updateUniform\<close> appends.
\<close>

definition binding_calls ::
  "'p \<Rightarrow> (tex_ref \<Rightarrow> Texture) \<Rightarrow> nat \<Rightarrow> 'p UniformInfo \<Rightarrow> gl_call list" where
  "binding_calls props texs k ui =
     calls (snd (updateUniform props ui
       (k, \<lparr>calls = [], stackDrawFramebuffer = [], stackViewport = [], textures = texs\<rparr>)))"

fun uniforms_calls ::
  "'p \<Rightarrow> (tex_ref \<Rightarrow> Texture) \<Rightarrow> nat \<Rightarrow> 'p UniformInfo list \<Rightarrow> gl_call list" where
  "uniforms_calls props texs k [] = []"
| "uniforms_calls props texs k (ui # rest) =
     binding_calls props texs k ui @
     uniforms_calls props texs (if is_texture (ui_definition ui) then Suc k else k) rest"

text \<open>An attachment whose size is not the declared size of the framebuffer.\<close>

definition size_differs :: "device \<Rightarrow> int \<Rightarrow> int \<Rightarrow> tex_ref \<Rightarrow> bool" where
  "size_differs dev w h t =
     (tex_width (textures dev t) \<noteq> w \<or> tex_height (textures dev t) \<noteq> h)"

text \<open>The attachments of a framebuffer: its color textures, then its depth texture if any.\<close>

definition attachments :: "Framebuffer \<Rightarrow> tex_ref list" where
  "attachments fb = colors fb @ (case depthStencil fb of None \<Rightarrow> [] | Some ds \<Rightarrow> [ds])"

section \<open>Example inputs\<close>

text \<open>
  A driver that compiles and links everything, knows two uniforms and one attribute,
  creates framebuffer 5 and reports it complete and valid.
\<close>

definition gl_example :: gl_context where
  "gl_example =
     \<lparr>glutil_createShader = (\<lambda>kind src. Inr (if kind = VERTEX_SHADER then 1 else 2)),
      glutil_createProgram = (\<lambda>v f. Inr 3),
      getUniformLocation =
        (\<lambda>program name. if name = ''u_tex'' then Some 10
                         else if name = ''u_time'' then Some 11 else None),
      getAttribLocation = (\<lambda>program name. if name = ''a_vertex_position'' then 0 else - 1),
      createFramebuffer = (\<lambda>cs. Some 5),
      checkFramebufferStatus = (\<lambda>cs. FRAMEBUFFER_COMPLETE),
      isFramebuffer = (\<lambda>cs fbo. fbo = Some 5),
      restoredTexture = (\<lambda>cs t. Some (40 + t))\<rparr>"

text \<open>The same driver reporting every framebuffer incomplete.\<close>

definition gl_incomplete :: gl_context where
  "gl_incomplete = gl_example\<lparr>checkFramebufferStatus := (\<lambda>cs. 0)\<rparr>"

text \<open>The same driver failing to create framebuffer objects (a lost context).\<close>

definition gl_lost :: gl_context where
  "gl_lost = gl_example\<lparr>createFramebuffer := (\<lambda>cs. None), isFramebuffer := (\<lambda>cs fbo. False)\<rparr>"

text \<open>A fresh device; texture 0 is 128 by 128, every other texture 256 by 256.\<close>

definition dev_example :: device where
  "dev_example =
     \<lparr>calls = [], stackDrawFramebuffer = [], stackViewport = [],
      textures = (\<lambda>t. \<lparr>tex_width = (if t = 0 then 128 else 256),
                         tex_height = (if t = 0 then 128 else 256),
                         glTexture = Some (40 + t)\<rparr>)\<rparr>"

text \<open>A device on which one target is already entered.\<close>

definition dev_nested :: device where
  "dev_nested = dev_example\<lparr>stackDrawFramebuffer := [Some 9]\<rparr>"

text \<open>Command properties whose per-draw data is a time; the second set declares an unknown uniform.\<close>

definition props_example :: "real CommandProps" where
  "props_example =
     \<lparr>vert = ''v'', frag = ''f'',
      uniforms = Some [(''u_tex'', UTexture (Value 1)), (''u_time'', U1f (Accessor (\<lambda>t. t)))],
      primitive = None, clear = None\<rparr>"

definition props_missing :: "real CommandProps" where
  "props_missing =
     \<lparr>vert = ''v'', frag = ''f'',
      uniforms = Some [(''u_tex'', UTexture (Value 1)), (''u_colour'', U1f (Value 1)),
                       (''u_time'', U1f (Accessor (\<lambda>t. t)))],
      primitive = None, clear = None\<rparr>"

text \<open>A command with two texture uniforms around a scalar one.\<close>

definition cmd_example :: "real Command" where
  "cmd_example =
     \<lparr>glProgram = 3, glPrimitive = TRIANGLES,
      uniformInfo =
        [\<lparr>ui_identifier = ''u_tex'', ui_location = 10, ui_definition = UTexture (Value 1)\<rparr>,
         \<lparr>ui_identifier = ''u_time'', ui_location = 11, ui_definition = U1f (Accessor (\<lambda>t. t))\<rparr>,
         \<lparr>ui_identifier = ''u_tex2'', ui_location = 12,
          ui_definition = UTexture (Accessor (\<lambda>t. if t < 1 then 2 else 3))\<rparr>],
      clearInfo = None\<rparr>"

text \<open>A framebuffer object as the constructor leaves it before \<open>init\<close>, with one color and a depth texture.\<close>

definition fb_example :: Framebuffer where
  "fb_example =
     \<lparr>width = 256, height = 256, glFramebuffer = None,
      glColorAttachments = [COLOR_ATTACHMENT0], framebufferTarget = None,
      colors = [1], depthStencil = Some 2, depthOnly = True\<rparr>"

text \<open>A framebuffer object before \<open>init\<close> with one color texture and no depth texture.\<close>

definition fb_color :: Framebuffer where
  "fb_color = fb_example\<lparr>depthStencil := None\<rparr>"

text \<open>The color-only framebuffer after a successful \<open>init\<close>.\<close>

definition fb_built :: Framebuffer where
  "fb_built =
     fb_color\<lparr>glFramebuffer := Some 5,
                framebufferTarget :=
                  Some \<lparr>target_glDrawBuffers = [COLOR_ATTACHMENT0], target_glFramebuffer = Some 5,
                        target_width = 256, target_height = 256\<rparr>\<rparr>"

text \<open>A callback that draws one triangle, and one that fails.\<close>

definition cb_draw :: callback where
  "cb_draw t dev = (Inr (), issue (DrawArrays TRIANGLES 0 3) dev)"

definition cb_fail :: callback where
  "cb_fail t dev = (Inl LinkError, issue (DrawArrays TRIANGLES 0 3) dev)"

declare updateUniform.simps [simp del]
declare string_of_nat.simps [simp del]

section \<open>Basic facts about the context\<close>

lemma calls_issue: "calls (issue c dev) = calls dev @ [c]"
  by (simp add: issue_def)

lemma stack_issue: "stackDrawFramebuffer (issue c dev) = stackDrawFramebuffer dev"
  by (simp add: issue_def)

lemma textures_issue: "textures (issue c dev) = textures dev"
  by (simp add: issue_def)

lemma stack_push:
  "stackDrawFramebuffer (stackDrawFramebuffer_push fbo dev) = fbo # stackDrawFramebuffer dev"
  by (simp add: stackDrawFramebuffer_push_def issue_def)

lemma stack_pop:
  "stackDrawFramebuffer (stackDrawFramebuffer_pop dev) = tl (stackDrawFramebuffer dev)"
  by (simp add: stackDrawFramebuffer_pop_def issue_def split: list.splits)

section \<open>Command.create\<close>

lemma locateUniforms_find:
  "locateUniforms gl program us =
     (case find (\<lambda>(i, u). getUniformLocation gl program i = None) us of
        Some (ident, u) \<Rightarrow> Inl (MissingUniformLocation ident)
      | None \<Rightarrow> Inr (map (\<lambda>(i, u). \<lparr>ui_identifier = i,
                                   ui_location = the (getUniformLocation gl program i),
                                   ui_definition = u\<rparr>) us))"
  by (induction us) (auto split: option.splits sum.splits)

lemma locateUniforms_all_found:
  assumes "\<forall>(i, u) \<in> set us. getUniformLocation gl program i \<noteq> None"
  shows "locateUniforms gl program us =
           Inr (map (\<lambda>(i, u). \<lparr>ui_identifier = i,
                                ui_location = the (getUniformLocation gl program i),
                                ui_definition = u\<rparr>) us)"
proof -
  have "find (\<lambda>(i, u). getUniformLocation gl program i = None) us = None"
    using assms by (auto simp: find_None_iff)
  then show ?thesis by (simp add: locateUniforms_find)
qed

lemma locateUniforms_first_missing:
  assumes "\<forall>(i, u) \<in> set pre. getUniformLocation gl program i \<noteq> None"
    and "getUniformLocation gl program ident = None"
  shows "locateUniforms gl program (pre @ (ident, u) # post) = Inl (MissingUniformLocation ident)"
  using assms by (induction pre) (auto split: option.splits sum.splits)

text \<open>
  C1. When the shaders compile and the program links, \<open>Command.create\<close> looks up every
  declared uniform in declaration order. If every identifier has a location, the command
  is built and its uniform bindings are exactly the declared uniforms, each with the
  location found for it. If some identifier has none, construction fails, and the error
  names the first declared identifier without a location; so a command is never built
  with a declared uniform left out.
\<close>

theorem Command_create_uniforms:
  assumes "glutil_createShader gl VERTEX_SHADER (vert props) = Inr vs"
    and "glutil_createShader gl FRAGMENT_SHADER (frag props) = Inr fs"
    and "glutil_createProgram gl vs fs = Inr program"
    and "uniforms props = Some us"
  shows "((\<forall>(i, u) \<in> set us. getUniformLocation gl program i \<noteq> None) \<longrightarrow>
            (\<exists>cmd dev'. Command_create gl props dev = (Inr cmd, dev') \<and>
               uniformInfo cmd =
                 map (\<lambda>(i, u). \<lparr>ui_identifier = i,
                                  ui_location = the (getUniformLocation gl program i),
                                  ui_definition = u\<rparr>) us)) \<and>
         (\<forall>pre ident u post.
            us = pre @ (ident, u) # post \<and>
            (\<forall>(i, u) \<in> set pre. getUniformLocation gl program i \<noteq> None) \<and>
            getUniformLocation gl program ident = None \<longrightarrow>
            fst (Command_create gl props dev) = Inl (MissingUniformLocation ident)) \<and>
         (\<forall>cmd dev'. Command_create gl props dev = (Inr cmd, dev') \<longrightarrow>
            map ui_identifier (uniformInfo cmd) = map fst us \<and>
            (\<forall>ui \<in> set (uniformInfo cmd).
               getUniformLocation gl program (ui_identifier ui) = Some (ui_location ui)))"
proof (intro conjI allI impI)
  assume all: "\<forall>(i, u) \<in> set us. getUniformLocation gl program i \<noteq> None"
  show "\<exists>cmd dev'. Command_create gl props dev = (Inr cmd, dev') \<and>
          uniformInfo cmd =
            map (\<lambda>(i, u). \<lparr>ui_identifier = i,
                             ui_location = the (getUniformLocation gl program i),
                             ui_definition = u\<rparr>) us"
    using assms locateUniforms_all_found [OF all]
    by (simp add: Command_create_def Let_def)
next
  fix pre ident u post
  assume "us = pre @ (ident, u) # post \<and>
          (\<forall>(i, u) \<in> set pre. getUniformLocation gl program i \<noteq> None) \<and>
          getUniformLocation gl program ident = None"
  then have "locateUniforms gl program us = Inl (MissingUniformLocation ident)"
    using locateUniforms_first_missing [of pre gl program ident u post] by simp
  then show "fst (Command_create gl props dev) = Inl (MissingUniformLocation ident)"
    using assms by (simp add: Command_create_def Let_def)
next
  fix cmd dev'
  assume ok: "Command_create gl props dev = (Inr cmd, dev')"
  have f: "find (\<lambda>(i, u). getUniformLocation gl program i = None) us = None"
    using ok assms
    by (auto simp: Command_create_def Let_def locateUniforms_find split: option.splits sum.splits)
  then have u: "uniformInfo cmd =
      map (\<lambda>(i, u). \<lparr>ui_identifier = i, ui_location = the (getUniformLocation gl program i),
                       ui_definition = u\<rparr>) us"
    using ok assms
    by (auto simp: Command_create_def Let_def locateUniforms_find split: option.splits sum.splits)
  show "map ui_identifier (uniformInfo cmd) = map fst us"
    by (simp add: u case_prod_beta)
  show "\<forall>ui \<in> set (uniformInfo cmd).
          getUniformLocation gl program (ui_identifier ui) = Some (ui_location ui)"
    using f by (auto simp: u find_None_iff)
qed

theorem Command_create_uniforms_witness:
  "(\<exists>cmd dev'. Command_create gl_example props_example dev_example = (Inr cmd, dev') \<and>
      uniformInfo cmd =
        [\<lparr>ui_identifier = ''u_tex'', ui_location = 10, ui_definition = UTexture (Value 1)\<rparr>,
         \<lparr>ui_identifier = ''u_time'', ui_location = 11, ui_definition = U1f (Accessor (\<lambda>t. t))\<rparr>]) \<and>
   fst (Command_create gl_example props_missing dev_example) =
     Inl (MissingUniformLocation ''u_colour'')"
proof -
  let ?us = "[(''u_tex'', UTexture (Value 1)), (''u_time'', U1f (Accessor (\<lambda>t. t)))]
               :: (string \<times> real Uniform) list"
  let ?pre = "[(''u_tex'', UTexture (Value 1))] :: (string \<times> real Uniform) list"
  let ?post = "[(''u_time'', U1f (Accessor (\<lambda>t. t)))] :: (string \<times> real Uniform) list"
  have v: "glutil_createShader gl_example VERTEX_SHADER ''v'' = Inr 1"
    and f: "glutil_createShader gl_example FRAGMENT_SHADER ''f'' = Inr 2"
    and p: "glutil_createProgram gl_example 1 2 = Inr 3"
    by (simp_all add: gl_example_def VERTEX_SHADER_def FRAGMENT_SHADER_def)
  have "vert props_example = ''v''" and "frag props_example = ''f''"
    and "uniforms props_example = Some ?us"
    by (simp_all add: props_example_def)
  then have t1: "(\<forall>(i, u) \<in> set ?us. getUniformLocation gl_example 3 i \<noteq> None) \<longrightarrow>
      (\<exists>cmd dev'. Command_create gl_example props_example dev_example = (Inr cmd, dev') \<and>
         uniformInfo cmd =
           map (\<lambda>(i, u). \<lparr>ui_identifier = i, ui_location = the (getUniformLocation gl_example 3 i),
                            ui_definition = u\<rparr>) ?us)"
    using Command_create_uniforms [of gl_example props_example 1 2 3 ?us dev_example] v f p
    by simp
  have "\<forall>(i, u) \<in> set ?us. getUniformLocation gl_example 3 i \<noteq> None"
    by (simp add: gl_example_def)
  with t1 have "\<exists>cmd dev'. Command_create gl_example props_example dev_example = (Inr cmd, dev') \<and>
      uniformInfo cmd =
        map (\<lambda>(i, u). \<lparr>ui_identifier = i, ui_location = the (getUniformLocation gl_example 3 i),
                         ui_definition = u\<rparr>) ?us"
    by (rule mp)
  then have a: "\<exists>cmd dev'. Command_create gl_example props_example dev_example = (Inr cmd, dev') \<and>
      uniformInfo cmd =
        [\<lparr>ui_identifier = ''u_tex'', ui_location = 10, ui_definition = UTexture (Value 1)\<rparr>,
         \<lparr>ui_identifier = ''u_time'', ui_location = 11, ui_definition = U1f (Accessor (\<lambda>t. t))\<rparr>]"
    by (simp add: gl_example_def)
  have "vert props_missing = ''v''" and "frag props_missing = ''f''"
    and "uniforms props_missing = Some (?pre @ (''u_colour'', U1f (Value 1)) # ?post)"
    by (simp_all add: props_missing_def)
  then have t2: "\<forall>pre ident u post.
      ?pre @ (''u_colour'', U1f (Value 1)) # ?post = pre @ (ident, u) # post \<and>
      (\<forall>(i, u) \<in> set pre. getUniformLocation gl_example 3 i \<noteq> None) \<and>
      getUniformLocation gl_example 3 ident = None \<longrightarrow>
      fst (Command_create gl_example props_missing dev_example) = Inl (MissingUniformLocation ident)"
    using Command_create_uniforms [of gl_example props_missing 1 2 3
        "?pre @ (''u_colour'', U1f (Value 1)) # ?post" dev_example] v f p
    by simp
  have "(\<forall>(i, u) \<in> set ?pre. getUniformLocation gl_example 3 i \<noteq> None) \<and>
      getUniformLocation gl_example 3 ''u_colour'' = None"
    by (simp add: gl_example_def)
  with t2 have b: "fst (Command_create gl_example props_missing dev_example) =
      Inl (MissingUniformLocation ''u_colour'')"
    by blast
  show ?thesis using a b by (rule conjI)
qed

section \<open>Command.draw\<close>

text \<open>
  C3. A draw dispatch with a non-negative instance count issues exactly one call, and
  leaves everything else as it is. The call is one of four: the element buffer chooses
  the indexed calls, a positive instance count chooses the instanced ones, and both
  indexed calls pass UNSIGNED_INT as the index type.
\<close>

theorem draw_dispatch:
  "0 \<le> instCount \<Longrightarrow>
   Command_draw cmd hasElements count instCount dev =
     dev\<lparr>calls := calls dev @
       [if hasElements then
          (if instCount > 0
           then DrawElementsInstanced (glPrimitive cmd) count UNSIGNED_INT 0 instCount
           else DrawElements (glPrimitive cmd) count UNSIGNED_INT 0)
        else
          (if instCount > 0
           then DrawArraysInstanced (glPrimitive cmd) 0 count instCount
           else DrawArrays (glPrimitive cmd) 0 count)]\<rparr>"
  by (simp add: Command_draw_def issue_def)

theorem draw_dispatch_witness:
  "calls (Command_draw cmd_example False 3 0 dev_example) = [DrawArrays TRIANGLES 0 3] \<and>
   calls (Command_draw cmd_example True 6 0 dev_example) = [DrawElements TRIANGLES 6 UNSIGNED_INT 0] \<and>
   calls (Command_draw cmd_example False 3 2 dev_example) = [DrawArraysInstanced TRIANGLES 0 3 2] \<and>
   calls (Command_draw cmd_example True 6 2 dev_example) =
     [DrawElementsInstanced TRIANGLES 6 UNSIGNED_INT 0 2]"
  using draw_dispatch [of 0 cmd_example False 3 dev_example]
    draw_dispatch [of 0 cmd_example True 6 dev_example]
    draw_dispatch [of 2 cmd_example False 3 dev_example]
    draw_dispatch [of 2 cmd_example True 6 dev_example]
  by (simp add: cmd_example_def dev_example_def)

section \<open>Command.updateUniforms\<close>

lemma updateUniform_step:
  "updateUniform props ui (k, dev) =
     (if is_texture (ui_definition ui) then Suc k else k,
      dev\<lparr>calls := calls dev @ binding_calls props (textures dev) k ui\<rparr>)"
  by (cases "ui_definition ui")
    (simp_all add: updateUniform.simps binding_calls_def issue_def Let_def)

lemma binding_calls_texture:
  "ui_definition ui = UTexture v \<Longrightarrow>
   binding_calls props texs k ui =
     [ActiveTexture (TEXTURE0 + k), BindTexture TEXTURE_2D (glTexture (texs (access props v))),
      Uniform1i (ui_location ui) (real k)]"
  by (simp add: updateUniform.simps binding_calls_def issue_def Let_def)

lemma binding_calls_other:
  "\<not> is_texture (ui_definition ui) \<Longrightarrow>
   filter is_ActiveTexture (binding_calls props texs k ui) = []"
  by (cases "ui_definition ui")
    (simp_all add: updateUniform.simps binding_calls_def issue_def Let_def)

lemma foldl_updateUniform:
  "foldl (\<lambda>st ui. updateUniform props ui st) (k, dev) infos =
     (k + texture_count infos,
      dev\<lparr>calls := calls dev @ uniforms_calls props (textures dev) k infos\<rparr>)"
proof (induction infos arbitrary: k dev)
  case Nil
  then show ?case by (simp add: texture_count_def)
next
  case (Cons ui infos)
  show ?case
    by (simp add: updateUniform_step Cons.IH texture_count_def)
qed

lemma uniforms_calls_append:
  "uniforms_calls props texs k (xs @ ys) =
     uniforms_calls props texs k xs @ uniforms_calls props texs (k + texture_count xs) ys"
  by (induction xs arbitrary: k) (simp_all add: texture_count_def)

lemma uniforms_calls_units:
  "filter is_ActiveTexture (uniforms_calls props texs k infos) =
     map (\<lambda>j. ActiveTexture (TEXTURE0 + j)) [k..<k + texture_count infos]"
proof (induction infos arbitrary: k)
  case Nil
  then show ?case by (simp add: texture_count_def)
next
  case (Cons ui infos)
  show ?case
  proof (cases "ui_definition ui")
    case (UTexture v)
    have "[k..<k + texture_count (ui # infos)] = k # [Suc k..<Suc k + texture_count infos]"
      using UTexture by (simp add: texture_count_def upt_rec)
    then show ?thesis
      using UTexture by (simp add: binding_calls_texture Cons.IH)
  qed (simp_all add: binding_calls_other Cons.IH texture_count_def)
qed

lemma calls_updateUniforms:
  "Command_updateUniforms cmd props dev =
     dev\<lparr>calls := calls dev @ uniforms_calls props (textures dev) 0 (uniformInfo cmd)\<rparr>"
  by (simp add: Command_updateUniforms_def foldl_updateUniform)

text \<open>
  C4. Take any texture-typed binding \<open>ui\<close> of a command, with the bindings \<open>pre\<close>
  declared before it and \<open>post\<close> after it. In every uniform dispatch, whatever the
  context has seen before, the binding activates the texture unit whose number is the
  count of texture-typed bindings in \<open>pre\<close>, binds the texture its value resolves to
  under the props of this call (read in the store as it is at this call), and sets its
  sampler to that unit. The units activated before it are \<open>0, 1, ...\<close> up to that
  number, the ones after it continue up to the number of texture-typed bindings; the
  dispatch leaves the texture objects as they are. The calls of a dispatch do not depend
  on the calls issued before it: they are the calls the same dispatch issues on a context
  with no history.
\<close>

theorem updateUniforms_texture_units:
  assumes "uniformInfo cmd = pre @ ui # post" and "ui_definition ui = UTexture v"
  shows "\<exists>before after.
           calls (Command_updateUniforms cmd props dev) =
             calls dev @ before @
             [ActiveTexture (TEXTURE0 + texture_count pre),
              BindTexture TEXTURE_2D (glTexture (textures dev (access props v))),
              Uniform1i (ui_location ui) (real (texture_count pre))] @ after
         \<and> filter is_ActiveTexture before =
             map (\<lambda>k. ActiveTexture (TEXTURE0 + k)) [0..<texture_count pre]
         \<and> filter is_ActiveTexture after =
             map (\<lambda>k. ActiveTexture (TEXTURE0 + k))
               [Suc (texture_count pre)..<texture_count (uniformInfo cmd)]
         \<and> textures (Command_updateUniforms cmd props dev) = textures dev
         \<and> calls (Command_updateUniforms cmd props dev) =
             calls dev @ calls (Command_updateUniforms cmd props (dev\<lparr>calls := []\<rparr>))"
proof -
  let ?texs = "textures dev"
  let ?k = "texture_count pre"
  let ?before = "uniforms_calls props ?texs 0 pre"
  let ?after = "uniforms_calls props ?texs (Suc ?k) post"
  have n: "texture_count (uniformInfo cmd) = Suc ?k + texture_count post"
    using assms by (simp add: texture_count_def)
  have "uniforms_calls props ?texs 0 (uniformInfo cmd) =
          ?before @ binding_calls props ?texs ?k ui @ ?after"
    using assms by (simp add: uniforms_calls_append)
  then have c: "calls (Command_updateUniforms cmd props dev) =
      calls dev @ ?before @
      [ActiveTexture (TEXTURE0 + ?k), BindTexture TEXTURE_2D (glTexture (?texs (access props v))),
       Uniform1i (ui_location ui) (real ?k)] @ ?after"
    using assms(2) by (simp add: calls_updateUniforms binding_calls_texture)
  have b: "filter is_ActiveTexture ?before = map (\<lambda>k. ActiveTexture (TEXTURE0 + k)) [0..<?k]"
    using uniforms_calls_units [of props ?texs 0 pre] by simp
  have a: "filter is_ActiveTexture ?after =
      map (\<lambda>k. ActiveTexture (TEXTURE0 + k)) [Suc ?k..<texture_count (uniformInfo cmd)]"
    using uniforms_calls_units [of props ?texs "Suc ?k" post] n by simp
  have t: "textures (Command_updateUniforms cmd props dev) = textures dev"
    by (simp add: calls_updateUniforms)
  have h: "calls (Command_updateUniforms cmd props dev) =
      calls dev @ calls (Command_updateUniforms cmd props (dev\<lparr>calls := []\<rparr>))"
    by (simp add: calls_updateUniforms)
  show ?thesis
    using c b a t h by blast
qed

theorem updateUniforms_texture_units_witness:
  "calls (Command_updateUniforms cmd_example 2 (Command_updateUniforms cmd_example (1 / 2) dev_example)) =
     [ActiveTexture TEXTURE0, BindTexture TEXTURE_2D (Some 41), Uniform1i 10 0,
      Uniform1f 11 (1 / 2),
      ActiveTexture (TEXTURE0 + 1), BindTexture TEXTURE_2D (Some 42), Uniform1i 12 1,
      ActiveTexture TEXTURE0, BindTexture TEXTURE_2D (Some 41), Uniform1i 10 0,
      Uniform1f 11 2,
      ActiveTexture (TEXTURE0 + 1), BindTexture TEXTURE_2D (Some 43), Uniform1i 12 1]"
proof -
  let ?tex = "\<lparr>ui_identifier = ''u_tex'', ui_location = 10, ui_definition = UTexture (Value 1)\<rparr>
                :: real UniformInfo"
  let ?time = "\<lparr>ui_identifier = ''u_time'', ui_location = 11,
                 ui_definition = U1f (Accessor (\<lambda>t. t))\<rparr> :: real UniformInfo"
  let ?acc = "Accessor (\<lambda>t::real. if t < 1 then 2 else 3) :: (real, tex_ref) AccessorOrValue"
  let ?tex2 = "\<lparr>ui_identifier = ''u_tex2'', ui_location = 12, ui_definition = UTexture ?acc\<rparr>"
  let ?dev1 = "Command_updateUniforms cmd_example (1 / 2) dev_example"
  have first: "calls ?dev1 =
      [ActiveTexture TEXTURE0, BindTexture TEXTURE_2D (Some 41), Uniform1i 10 0,
       Uniform1f 11 (1 / 2),
       ActiveTexture (TEXTURE0 + 1), BindTexture TEXTURE_2D (Some 42), Uniform1i 12 1]"
    by (simp add: Command_updateUniforms_def cmd_example_def dev_example_def
        updateUniform.simps issue_def Let_def)
  have u: "uniformInfo cmd_example = [?tex, ?time] @ ?tex2 # []"
    by (simp add: cmd_example_def)
  have d: "ui_definition ?tex2 = UTexture ?acc"
    by simp
  have k: "texture_count [?tex, ?time] = 1" and n: "texture_count (uniformInfo cmd_example) = 2"
    by (simp_all add: texture_count_def cmd_example_def)
  have t: "textures ?dev1 = textures dev_example"
    using updateUniforms_texture_units [OF u d, of "1 / 2" dev_example] by blast
  obtain before after where
    c: "calls (Command_updateUniforms cmd_example 2 ?dev1) =
          calls ?dev1 @ before @
          [ActiveTexture (TEXTURE0 + texture_count [?tex, ?time]),
           BindTexture TEXTURE_2D (glTexture (textures ?dev1 (access 2 ?acc))),
           Uniform1i (ui_location ?tex2) (real (texture_count [?tex, ?time]))] @ after"
    using updateUniforms_texture_units [OF u d, of 2 ?dev1] by blast
  have second: "calls (Command_updateUniforms cmd_example 2 ?dev1) =
      calls ?dev1 @
      [ActiveTexture TEXTURE0, BindTexture TEXTURE_2D (Some 41), Uniform1i 10 0,
       Uniform1f 11 2,
       ActiveTexture (TEXTURE0 + 1), BindTexture TEXTURE_2D (Some 43), Uniform1i 12 1]"
    by (simp add: calls_updateUniforms t cmd_example_def dev_example_def binding_calls_def
        updateUniform.simps issue_def Let_def)
  show ?thesis
    using first second c by simp
qed

section \<open>Framebuffer.init\<close>

lemma attachColors_returns: "fst (attachColors cs i dev) = Inr ()"
  by (induction cs arbitrary: i dev) (simp_all add: framebufferTexture2D_def)

lemma attachColors_never_throws: "attachColors cs i dev \<noteq> (Inl e, dev')"
  using attachColors_returns [of cs i dev] by auto

lemma stack_attachColors:
  "stackDrawFramebuffer (snd (attachColors cs i dev)) = stackDrawFramebuffer dev"
  by (induction cs arbitrary: i dev) (simp_all add: framebufferTexture2D_def stack_issue)

lemma textures_attachColors: "textures (snd (attachColors cs i dev)) = textures dev"
  by (induction cs arbitrary: i dev) (simp_all add: framebufferTexture2D_def textures_issue)

lemma calls_attachColors:
  "calls (snd (attachColors cs i dev)) =
     calls dev @
     map (\<lambda>(k, buffer). FramebufferTexture2D DRAW_FRAMEBUFFER (COLOR_ATTACHMENT0 + k) TEXTURE_2D
                           (GLHandle (glTexture (textures dev buffer))) 0)
       (zip [i..<i + length cs] cs)"
proof (induction cs arbitrary: i dev)
  case Nil
  then show ?case by simp
next
  case (Cons b cs)
  have "[i..<i + length (b # cs)] = i # [Suc i..<Suc i + length cs]"
    by (simp add: upt_rec)
  then show ?case
    by (simp add: Cons.IH framebufferTexture2D_def calls_issue textures_issue)
qed

lemma calls_push:
  "calls (stackDrawFramebuffer_push fbo dev) = calls dev @ [BindFramebuffer DRAW_FRAMEBUFFER fbo]"
  by (simp add: stackDrawFramebuffer_push_def issue_def)

lemma textures_push: "textures (stackDrawFramebuffer_push fbo dev) = textures dev"
  by (simp add: stackDrawFramebuffer_push_def issue_def)

text \<open>
  The attaching part of \<open>init\<close> with the loop over the colors, which never throws,
  folded in: without a depth texture it returns the new framebuffer object, with one it
  throws at the depth attachment.
\<close>

lemma init_attach_eq:
  "init_attach gl fb dev =
     (let fbo = createFramebuffer gl (calls dev);
          dev3 = snd (attachColors (colors fb) 0
                        (stackDrawFramebuffer_push fbo (issue (CreateFramebuffer fbo) dev)))
      in case depthStencil fb of
           None \<Rightarrow> (Inr fbo, dev3)
         | Some ds \<Rightarrow>
             (Inl TypeError,
              issue (FramebufferTexture2D DRAW_FRAMEBUFFER
                       (if depthOnly fb then DEPTH_ATTACHMENT else DEPTH_STENCIL_ATTACHMENT)
                       TEXTURE_2D (TextureObject ds) 0) dev3))"
  by (auto simp: init_attach_def Let_def framebufferTexture2D_def attachColors_never_throws
      split: option.splits prod.splits sum.splits)

lemma calls_init_attach:
  "calls (snd (init_attach gl fb dev)) =
     calls dev @
     [CreateFramebuffer (createFramebuffer gl (calls dev)),
      BindFramebuffer DRAW_FRAMEBUFFER (createFramebuffer gl (calls dev))] @
     map (\<lambda>(k, buffer). FramebufferTexture2D DRAW_FRAMEBUFFER (COLOR_ATTACHMENT0 + k) TEXTURE_2D
                           (GLHandle (glTexture (textures dev buffer))) 0)
       (zip [0..<length (colors fb)] (colors fb)) @
     (case depthStencil fb of
        None \<Rightarrow> []
      | Some ds \<Rightarrow>
          [FramebufferTexture2D DRAW_FRAMEBUFFER
             (if depthOnly fb then DEPTH_ATTACHMENT else DEPTH_STENCIL_ATTACHMENT)
             TEXTURE_2D (TextureObject ds) 0])"
  by (simp add: init_attach_eq Let_def calls_issue calls_attachColors calls_push
      textures_push textures_issue split: option.splits)

lemma fst_init_attach:
  "fst (init_attach gl fb dev) =
     (case depthStencil fb of
        None \<Rightarrow> Inr (createFramebuffer gl (calls dev))
      | Some ds \<Rightarrow> Inl TypeError)"
  by (simp add: init_attach_eq Let_def split: option.splits)

lemma stack_init_attach:
  "stackDrawFramebuffer (snd (init_attach gl fb dev)) =
     createFramebuffer gl (calls dev) # stackDrawFramebuffer dev"
  by (simp add: init_attach_eq Let_def stack_issue stack_attachColors stack_push
      split: option.splits)

lemma fst_init:
  "fst (Framebuffer_init gl fb dev) =
     (case depthStencil fb of
        Some ds \<Rightarrow> Inl TypeError
      | None \<Rightarrow>
          if checkFramebufferStatus gl (calls (snd (init_attach gl fb dev))) \<noteq> FRAMEBUFFER_COMPLETE
          then Inl FramebufferIncomplete else Inr ())"
  by (simp add: Framebuffer_init_def init_attach_eq Let_def split: option.splits)

text \<open>
  With a depth or depth-stencil texture \<open>init\<close> always throws at the depth attachment,
  after the push and before the pop: the framebuffer object it created stays on the stack.
\<close>

lemma init_with_depth:
  assumes "depthStencil fb = Some ds"
  shows "Framebuffer_init gl fb dev = (Inl TypeError, fb, snd (init_attach gl fb dev))"
    and "stackDrawFramebuffer (snd (snd (Framebuffer_init gl fb dev))) =
           createFramebuffer gl (calls dev) # stackDrawFramebuffer dev"
proof -
  show r: "Framebuffer_init gl fb dev = (Inl TypeError, fb, snd (init_attach gl fb dev))"
    using assms by (simp add: Framebuffer_init_def init_attach_eq Let_def)
  show "stackDrawFramebuffer (snd (snd (Framebuffer_init gl fb dev))) =
      createFramebuffer gl (calls dev) # stackDrawFramebuffer dev"
    by (simp add: r stack_init_attach)
qed

text \<open>Without one, \<open>init\<close> leaves the stack as it found it, whether it returns or throws.\<close>

lemma init_without_depth:
  assumes "depthStencil fb = None"
  shows "stackDrawFramebuffer (snd (snd (Framebuffer_init gl fb dev))) = stackDrawFramebuffer dev"
proof -
  obtain dev4 where a: "init_attach gl fb dev = (Inr (createFramebuffer gl (calls dev)), dev4)"
    using assms by (simp add: init_attach_eq Let_def)
  have "stackDrawFramebuffer dev4 = createFramebuffer gl (calls dev) # stackDrawFramebuffer dev"
    using stack_init_attach [of gl fb dev] a by simp
  then have "stackDrawFramebuffer (stackDrawFramebuffer_pop dev4) = stackDrawFramebuffer dev"
    by (simp add: stack_pop)
  then show ?thesis
    by (simp add: Framebuffer_init_def a Let_def stack_issue split: option.splits)
qed

text \<open>
  C6 (the code differs). \<open>Framebuffer.withColorDepth(dev, 256, 256, color, depth)\<close> with
  a color texture whose GL handle is 41 and a depth texture whose GL handle is 42: the
  color attachment receives the handle 41, the depth attachment is handed the
  \<open>Texture\<close> object itself, not its handle 42, and the construction ends there with
  the TypeError of the context.
\<close>

theorem init_depth_attachment_example:
  "fst (Framebuffer_withColorDepth gl_example dev_example 256 256 (Single 1) 2) = Inl TypeError \<and>
   calls (snd (Framebuffer_withColorDepth gl_example dev_example 256 256 (Single 1) 2)) =
     [CreateFramebuffer (Some 5),
      BindFramebuffer DRAW_FRAMEBUFFER (Some 5),
      FramebufferTexture2D DRAW_FRAMEBUFFER COLOR_ATTACHMENT0 TEXTURE_2D (GLHandle (Some 41)) 0,
      FramebufferTexture2D DRAW_FRAMEBUFFER DEPTH_ATTACHMENT TEXTURE_2D (TextureObject 2) 0] \<and>
   glTexture (textures dev_example 2) = Some 42"
  by (simp add: Framebuffer_withColorDepth_def assert_nonEmpty_def assert_size_def
      assert_equal_def Framebuffer_new_def Framebuffer_init_def init_attach_def
      framebufferTexture2D_def stackDrawFramebuffer_push_def issue_def Let_def
      gl_example_def dev_example_def)

text \<open>
  C7 (the code differs). \<open>Framebuffer.withDepth(dev, 256, 256, depth)\<close>, called while
  another target is entered (the stack holds framebuffer 9): \<open>init\<close> pushes the new
  framebuffer object 5, the depth attachment throws, and nothing pops: the construction
  fails and leaves the stack one deeper, with 5 above 9. The same holds for \<open>init\<close> on
  any framebuffer with a depth or depth-stencil texture (\<open>init_with_depth\<close>); on one
  without, the push and the pop are paired on both exits (\<open>init_without_depth\<close>).
\<close>

theorem init_stack_left_pushed_example:
  "stackDrawFramebuffer dev_nested = [Some 9] \<and>
   fst (Framebuffer_withDepth gl_example dev_nested 256 256 2) = Inl TypeError \<and>
   stackDrawFramebuffer (snd (Framebuffer_withDepth gl_example dev_nested 256 256 2)) =
     [Some 5, Some 9] \<and>
   fst (Framebuffer_init gl_example fb_example dev_nested) = Inl TypeError \<and>
   stackDrawFramebuffer (snd (snd (Framebuffer_init gl_example fb_example dev_nested))) =
     [Some 5, Some 9]"
proof -
  have s: "stackDrawFramebuffer dev_nested = [Some 9]"
    by (simp add: dev_nested_def dev_example_def)
  have c: "createFramebuffer gl_example (calls dev_nested) = Some 5"
    by (simp add: gl_example_def)
  have d: "depthStencil fb_example = Some 2"
    by (simp add: fb_example_def)
  have i: "fst (Framebuffer_init gl_example fb_example dev_nested) = Inl TypeError"
    by (simp add: init_with_depth(1) [OF d])
  have j: "stackDrawFramebuffer (snd (snd (Framebuffer_init gl_example fb_example dev_nested))) =
      [Some 5, Some 9]"
    by (simp add: init_with_depth(2) [OF d] c s)
  let ?fb = "\<lparr>width = 256, height = 256, glFramebuffer = None,
              glColorAttachments = map (\<lambda>i. COLOR_ATTACHMENT0 + i) [0..<length ([] :: tex_ref list)],
              framebufferTarget = None, colors = [], depthStencil = Some 2,
              depthOnly = (case Some True of None \<Rightarrow> True | Some b \<Rightarrow> b)\<rparr>"
  have e: "depthStencil ?fb = Some 2"
    by simp
  have n: "Framebuffer_withDepth gl_example dev_nested 256 256 2 =
      Framebuffer_new gl_example dev_nested 256 256 [] (Some 2) (Some True)"
    by (simp add: Framebuffer_withDepth_def assert_size_def assert_equal_def
        dev_nested_def dev_example_def)
  have m: "Framebuffer_new gl_example dev_nested 256 256 [] (Some 2) (Some True) =
      (Inl TypeError, snd (init_attach gl_example ?fb dev_nested))"
    unfolding Framebuffer_new_def by (simp only: init_with_depth(1) [OF e] prod.case sum.case)
  have k: "fst (Framebuffer_withDepth gl_example dev_nested 256 256 2) = Inl TypeError"
    by (simp add: n m)
  have l: "stackDrawFramebuffer (snd (Framebuffer_withDepth gl_example dev_nested 256 256 2)) =
      [Some 5, Some 9]"
    by (simp add: n m stack_init_attach c s)
  show ?thesis
    using s i j k l by simp
qed

text \<open>
  C8. When the attaching part of \<open>init\<close> has returned and the driver reports the
  framebuffer incomplete at the check, \<open>init\<close> throws FramebufferIncomplete, the
  framebuffer object \<open>this\<close> is what it was before the call (its \<open>glFramebuffer\<close> and
  its target are not assigned), and the last call issued deletes the framebuffer object
  that this \<open>init\<close> created.
\<close>

theorem init_incomplete:
  assumes "init_attach gl fb dev = (Inr fbo, dev4)"
    and "checkFramebufferStatus gl (calls dev4) \<noteq> FRAMEBUFFER_COMPLETE"
  shows "Framebuffer_init gl fb dev =
           (Inl FramebufferIncomplete, fb,
            issue (DeleteFramebuffer fbo) (stackDrawFramebuffer_pop dev4)) \<and>
         fbo = createFramebuffer gl (calls dev) \<and>
         CreateFramebuffer fbo \<in> set (calls dev4) \<and>
         last (calls (snd (snd (Framebuffer_init gl fb dev)))) = DeleteFramebuffer fbo"
proof -
  have r: "Framebuffer_init gl fb dev =
      (Inl FramebufferIncomplete, fb, issue (DeleteFramebuffer fbo) (stackDrawFramebuffer_pop dev4))"
    using assms by (simp add: Framebuffer_init_def Let_def)
  have f: "fbo = createFramebuffer gl (calls dev)"
    using fst_init_attach [of gl fb dev] assms(1) by (auto split: option.splits)
  have "calls dev4 = calls (snd (init_attach gl fb dev))"
    using assms(1) by simp
  then have c: "CreateFramebuffer fbo \<in> set (calls dev4)"
    using f by (simp add: calls_init_attach)
  have l: "last (calls (snd (snd (Framebuffer_init gl fb dev)))) = DeleteFramebuffer fbo"
    by (simp add: r calls_issue)
  show ?thesis
    using r f c l by simp
qed

theorem init_incomplete_witness:
  "Framebuffer_init gl_incomplete fb_built dev_nested =
     (Inl FramebufferIncomplete, fb_built,
      dev_nested\<lparr>calls :=
        [CreateFramebuffer (Some 5),
         BindFramebuffer DRAW_FRAMEBUFFER (Some 5),
         FramebufferTexture2D DRAW_FRAMEBUFFER COLOR_ATTACHMENT0 TEXTURE_2D (GLHandle (Some 41)) 0,
         BindFramebuffer DRAW_FRAMEBUFFER (Some 9),
         DeleteFramebuffer (Some 5)]\<rparr>)"
proof -
  let ?dev4 = "snd (init_attach gl_incomplete fb_built dev_nested)"
  have a: "init_attach gl_incomplete fb_built dev_nested = (Inr (Some 5), ?dev4)"
    by (simp add: init_attach_eq Let_def gl_incomplete_def gl_example_def fb_built_def
        fb_color_def)
  have s: "checkFramebufferStatus gl_incomplete (calls ?dev4) \<noteq> FRAMEBUFFER_COMPLETE"
    by (simp add: gl_incomplete_def gl_example_def FRAMEBUFFER_COMPLETE_def)
  have "Framebuffer_init gl_incomplete fb_built dev_nested =
      (Inl FramebufferIncomplete, fb_built,
       issue (DeleteFramebuffer (Some 5)) (stackDrawFramebuffer_pop ?dev4))"
    using init_incomplete [OF a s] by simp
  then show ?thesis
    by (simp add: init_attach_def framebufferTexture2D_def stackDrawFramebuffer_push_def
        stackDrawFramebuffer_pop_def issue_def Let_def gl_incomplete_def gl_example_def
        dev_nested_def dev_example_def fb_built_def fb_color_def fb_example_def)
qed

section \<open>Framebuffer.restore\<close>

lemma calls_Texture_restore: "calls (Texture_restore gl t dev) = calls dev @ [TextureRestore t]"
  by (simp add: Texture_restore_def Let_def issue_def)

lemma calls_restoreColors: "calls (restoreColors gl cs dev) = calls dev @ map TextureRestore cs"
  by (induction cs arbitrary: dev) (simp_all add: calls_Texture_restore)

lemma calls_restore_attachments:
  "calls (restore_attachments gl fb dev) = calls dev @ map TextureRestore (attachments fb)"
  by (simp add: restore_attachments_def attachments_def Let_def calls_restoreColors
      calls_Texture_restore split: option.splits)

lemma calls_pop:
  "calls (stackDrawFramebuffer_pop dev) =
     calls dev @
     (case stackDrawFramebuffer dev of
        [] \<Rightarrow> []
      | cur # below \<Rightarrow>
          [BindFramebuffer DRAW_FRAMEBUFFER (case below of [] \<Rightarrow> None | prev # _ \<Rightarrow> prev)])"
  by (simp add: stackDrawFramebuffer_pop_def issue_def split: list.splits)

lemma no_creation_in_attachments:
  "filter is_CreateFramebuffer
     (map (\<lambda>(k, buffer). FramebufferTexture2D a (b + k) c (GLHandle (f buffer)) 0) zs) = []"
  by (induction zs) auto

lemma creations_init_attach:
  "length (filter is_CreateFramebuffer (calls (snd (init_attach gl fb dev)))) =
     Suc (length (filter is_CreateFramebuffer (calls dev)))"
  by (simp add: calls_init_attach no_creation_in_attachments split: option.splits)

lemma creations_init:
  "length (filter is_CreateFramebuffer (calls (snd (snd (Framebuffer_init gl fb dev))))) =
     Suc (length (filter is_CreateFramebuffer (calls dev)))"
proof -
  obtain r dev4 where a: "init_attach gl fb dev = (r, dev4)"
    by (cases "init_attach gl fb dev")
  have c: "length (filter is_CreateFramebuffer (calls dev4)) =
      Suc (length (filter is_CreateFramebuffer (calls dev)))"
    using creations_init_attach [of gl fb dev] a by simp
  have "filter is_CreateFramebuffer (calls (stackDrawFramebuffer_pop dev4)) =
      filter is_CreateFramebuffer (calls dev4)"
    by (simp add: calls_pop split: list.splits)
  then show ?thesis
    using c
    by (cases r) (simp_all add: Framebuffer_init_def a Let_def calls_issue split: option.splits)
qed

text \<open>
  C9. \<open>restore\<close> first invokes \<open>restore\<close> on every color texture and then on the depth
  texture if there is one, and on nothing else. The validity of the framebuffer object
  is asked after that. If the driver reports it valid, \<open>restore\<close> returns with the
  framebuffer object unchanged and with no framebuffer created; if it reports it
  invalid, \<open>restore\<close> is \<open>init\<close> run after the textures' restores, which creates
  exactly one framebuffer.
\<close>

theorem restore_behaviour:
  "calls (restore_attachments gl fb dev) = calls dev @ map TextureRestore (attachments fb) \<and>
   (isFramebuffer gl (calls (restore_attachments gl fb dev)) (glFramebuffer fb) \<longrightarrow>
      Framebuffer_restore gl fb dev = (Inr (), fb, restore_attachments gl fb dev) \<and>
      calls (snd (snd (Framebuffer_restore gl fb dev))) =
        calls dev @ map TextureRestore (attachments fb)) \<and>
   (\<not> isFramebuffer gl (calls (restore_attachments gl fb dev)) (glFramebuffer fb) \<longrightarrow>
      Framebuffer_restore gl fb dev = Framebuffer_init gl fb (restore_attachments gl fb dev) \<and>
      length (filter is_CreateFramebuffer (calls (snd (snd (Framebuffer_restore gl fb dev))))) =
        Suc (length (filter is_CreateFramebuffer (calls dev))))"
proof (intro conjI impI)
  show "calls (restore_attachments gl fb dev) = calls dev @ map TextureRestore (attachments fb)"
    by (rule calls_restore_attachments)
next
  assume v: "isFramebuffer gl (calls (restore_attachments gl fb dev)) (glFramebuffer fb)"
  then show r: "Framebuffer_restore gl fb dev = (Inr (), fb, restore_attachments gl fb dev)"
    by (simp add: Framebuffer_restore_def Let_def)
  show "calls (snd (snd (Framebuffer_restore gl fb dev))) =
      calls dev @ map TextureRestore (attachments fb)"
    by (simp add: r calls_restore_attachments)
next
  assume v: "\<not> isFramebuffer gl (calls (restore_attachments gl fb dev)) (glFramebuffer fb)"
  then show r: "Framebuffer_restore gl fb dev =
      Framebuffer_init gl fb (restore_attachments gl fb dev)"
    by (simp add: Framebuffer_restore_def Let_def)
  have "filter is_CreateFramebuffer (map TextureRestore (attachments fb)) = []"
    by (induction "attachments fb") (auto simp: filter_empty_conv)
  then show "length (filter is_CreateFramebuffer
        (calls (snd (snd (Framebuffer_restore gl fb dev))))) =
      Suc (length (filter is_CreateFramebuffer (calls dev)))"
    by (simp add: r creations_init calls_restore_attachments)
qed

theorem restore_behaviour_witness:
  "fst (Framebuffer_restore gl_example fb_built dev_example) = Inr () \<and>
   fst (snd (Framebuffer_restore gl_example fb_built dev_example)) = fb_built \<and>
   calls (snd (snd (Framebuffer_restore gl_example fb_built dev_example))) = [TextureRestore 1] \<and>
   calls (restore_attachments gl_example fb_example dev_example) =
     [TextureRestore 1, TextureRestore 2] \<and>
   calls (snd (snd (Framebuffer_restore gl_example fb_color dev_example))) =
     [TextureRestore 1,
      CreateFramebuffer (Some 5),
      BindFramebuffer DRAW_FRAMEBUFFER (Some 5),
      FramebufferTexture2D DRAW_FRAMEBUFFER COLOR_ATTACHMENT0 TEXTURE_2D (GLHandle (Some 41)) 0,
      BindFramebuffer DRAW_FRAMEBUFFER None] \<and>
   glFramebuffer (fst (snd (Framebuffer_restore gl_example fb_color dev_example))) = Some 5"
proof -
  have at: "attachments fb_built = [1]" "attachments fb_example = [1, 2]"
    by (simp_all add: attachments_def fb_built_def fb_color_def fb_example_def)
  have c: "calls dev_example = []"
    by (simp add: dev_example_def)
  have valid: "isFramebuffer gl_example (calls (restore_attachments gl_example fb_built dev_example))
      (glFramebuffer fb_built)"
    by (simp add: gl_example_def fb_built_def)
  have invalid: "\<not> isFramebuffer gl_example
      (calls (restore_attachments gl_example fb_color dev_example)) (glFramebuffer fb_color)"
    by (simp add: gl_example_def fb_color_def fb_example_def)
  have a: "Framebuffer_restore gl_example fb_built dev_example =
      (Inr (), fb_built, restore_attachments gl_example fb_built dev_example)"
    using restore_behaviour [of gl_example fb_built dev_example] valid by blast
  have b: "calls (restore_attachments gl_example fb_built dev_example) = [TextureRestore 1]"
    using restore_behaviour [of gl_example fb_built dev_example] at c by simp
  have b2: "calls (restore_attachments gl_example fb_example dev_example) =
      [TextureRestore 1, TextureRestore 2]"
    using restore_behaviour [of gl_example fb_example dev_example] at c by simp
  have i: "Framebuffer_restore gl_example fb_color dev_example =
      Framebuffer_init gl_example fb_color (restore_attachments gl_example fb_color dev_example)"
    using restore_behaviour [of gl_example fb_color dev_example] invalid by blast
  have j: "calls (snd (snd (Framebuffer_restore gl_example fb_color dev_example))) =
     [TextureRestore 1,
      CreateFramebuffer (Some 5),
      BindFramebuffer DRAW_FRAMEBUFFER (Some 5),
      FramebufferTexture2D DRAW_FRAMEBUFFER COLOR_ATTACHMENT0 TEXTURE_2D (GLHandle (Some 41)) 0,
      BindFramebuffer DRAW_FRAMEBUFFER None]"
    unfolding i
    by (simp add: Framebuffer_init_def init_attach_def framebufferTexture2D_def
        restore_attachments_def Texture_restore_def stackDrawFramebuffer_push_def
        stackDrawFramebuffer_pop_def issue_def Let_def gl_example_def dev_example_def
        fb_color_def fb_example_def)
  have k: "glFramebuffer (fst (snd (Framebuffer_restore gl_example fb_color dev_example))) = Some 5"
    unfolding i
    by (simp add: Framebuffer_init_def init_attach_eq Let_def gl_example_def fb_color_def
        fb_example_def)
  show ?thesis
    using a b b2 j k by simp
qed

section \<open>Framebuffer.target\<close>

text \<open>
  C10. Without an owned target, \<open>target(cb)\<close> returns normally and leaves the world
  as it is: the callback is not run. With an owned target \<open>t\<close> it is
  \<open>t.with(cb)\<close>: the callback runs once, on \<open>t\<close>, between the pushes and the pops.
  A framebuffer whose construction succeeded although the driver created no framebuffer
  object has no target, so \<open>target(cb)\<close> on it does nothing.
\<close>

theorem target_behaviour:
  "(framebufferTarget fb = None \<longrightarrow> Framebuffer_target fb cb dev = (Inr (), dev)) \<and>
   (\<forall>t. framebufferTarget fb = Some t \<longrightarrow>
      Framebuffer_target fb cb dev = Target_with t cb dev \<and>
      Framebuffer_target fb cb dev =
        (case cb t (stackViewport_push (0, 0, target_width t, target_height t)
                     (stackDrawFramebuffer_push (target_glFramebuffer t) dev)) of
           (r, dev3) \<Rightarrow> (r, stackDrawFramebuffer_pop (stackViewport_pop dev3)))) \<and>
   (\<forall>fb' dev'.
      createFramebuffer gl (calls dev) = None \<and>
      Framebuffer_new gl dev w h cols ds dOnly = (Inr fb', dev') \<longrightarrow>
      glFramebuffer fb' = None \<and> framebufferTarget fb' = None \<and>
      Framebuffer_target fb' cb dev' = (Inr (), dev'))"
proof (intro conjI allI impI)
  assume "framebufferTarget fb = None"
  then show "Framebuffer_target fb cb dev = (Inr (), dev)"
    by (simp add: Framebuffer_target_def)
next
  fix t
  assume t: "framebufferTarget fb = Some t"
  then show "Framebuffer_target fb cb dev = Target_with t cb dev"
    by (simp add: Framebuffer_target_def)
  show "Framebuffer_target fb cb dev =
      (case cb t (stackViewport_push (0, 0, target_width t, target_height t)
                   (stackDrawFramebuffer_push (target_glFramebuffer t) dev)) of
         (r, dev3) \<Rightarrow> (r, stackDrawFramebuffer_pop (stackViewport_pop dev3)))"
    using t by (simp add: Framebuffer_target_def Target_with_def Let_def)
next
  fix fb' dev'
  assume a: "createFramebuffer gl (calls dev) = None \<and>
    Framebuffer_new gl dev w h cols ds dOnly = (Inr fb', dev')"
  then have g: "glFramebuffer fb' = None" and f: "framebufferTarget fb' = None"
    by (auto simp: Framebuffer_new_def Framebuffer_init_def init_attach_eq Let_def
        split: if_splits option.splits prod.splits sum.splits)
  show "glFramebuffer fb' = None" by (rule g)
  show "framebufferTarget fb' = None" by (rule f)
  show "Framebuffer_target fb' cb dev' = (Inr (), dev')"
    using f by (simp add: Framebuffer_target_def)
qed

theorem target_behaviour_witness:
  "Framebuffer_target fb_example cb_fail dev_example = (Inr (), dev_example) \<and>
   fst (Framebuffer_target fb_built cb_draw dev_example) = Inr () \<and>
   calls (snd (Framebuffer_target fb_built cb_draw dev_example)) =
     [BindFramebuffer DRAW_FRAMEBUFFER (Some 5), Viewport 0 0 256 256,
      DrawArrays TRIANGLES 0 3, BindFramebuffer DRAW_FRAMEBUFFER None] \<and>
   (\<exists>fb' dev'. Framebuffer_new gl_lost dev_example 256 256 [1] None None = (Inr fb', dev') \<and>
      framebufferTarget fb' = None \<and> Framebuffer_target fb' cb_fail dev' = (Inr (), dev'))"
proof -
  let ?t = "\<lparr>target_glDrawBuffers = [COLOR_ATTACHMENT0], target_glFramebuffer = Some 5,
             target_width = 256, target_height = 256\<rparr>"
  have n: "framebufferTarget fb_example = None"
    by (simp add: fb_example_def)
  have s: "framebufferTarget fb_built = Some ?t"
    by (simp add: fb_built_def fb_color_def fb_example_def)
  have a: "Framebuffer_target fb_example cb_fail dev_example = (Inr (), dev_example)"
    using target_behaviour [of fb_example cb_fail dev_example] n by blast
  have "Framebuffer_target fb_built cb_draw dev_example =
      (case cb_draw ?t (stackViewport_push (0, 0, target_width ?t, target_height ?t)
                         (stackDrawFramebuffer_push (target_glFramebuffer ?t) dev_example)) of
         (r, dev3) \<Rightarrow> (r, stackDrawFramebuffer_pop (stackViewport_pop dev3)))"
    using target_behaviour [of fb_built cb_draw dev_example] s by blast
  then have b: "fst (Framebuffer_target fb_built cb_draw dev_example) = Inr () \<and>
      calls (snd (Framebuffer_target fb_built cb_draw dev_example)) =
        [BindFramebuffer DRAW_FRAMEBUFFER (Some 5), Viewport 0 0 256 256,
         DrawArrays TRIANGLES 0 3, BindFramebuffer DRAW_FRAMEBUFFER None]"
    by (simp add: cb_draw_def stackViewport_push_def stackViewport_pop_def
        stackDrawFramebuffer_push_def stackDrawFramebuffer_pop_def issue_def dev_example_def)
  obtain r fb' dev' where
    i: "Framebuffer_init gl_lost
          \<lparr>width = 256, height = 256, glFramebuffer = None,
           glColorAttachments = map (\<lambda>i. COLOR_ATTACHMENT0 + i) [0..<length [1::nat]],
           framebufferTarget = None, colors = [1], depthStencil = None, depthOnly = True\<rparr>
          dev_example = (r, fb', dev')"
    by (rule prod_cases3)
  have "fst (r, fb', dev') = Inr ()"
    unfolding i [symmetric] by (simp add: fst_init gl_lost_def gl_example_def)
  then have c: "Framebuffer_new gl_lost dev_example 256 256 [1] None None = (Inr fb', dev')"
    using i by (simp add: Framebuffer_new_def)
  have l: "createFramebuffer gl_lost (calls dev_example) = None"
    by (simp add: gl_lost_def)
  have "framebufferTarget fb' = None \<and> Framebuffer_target fb' cb_fail dev' = (Inr (), dev')"
    using target_behaviour [of fb_example cb_fail dev_example gl_lost 256 256 "[1]" None None] l c
    by blast
  then have d: "\<exists>fb' dev'. Framebuffer_new gl_lost dev_example 256 256 [1] None None = (Inr fb', dev') \<and>
      framebufferTarget fb' = None \<and> Framebuffer_target fb' cb_fail dev' = (Inr (), dev')"
    using c by blast
  show ?thesis
    using a b d by blast
qed

section \<open>The Framebuffer factories\<close>

lemma assert_size_eq:
  "assert_size dev w h t = (if size_differs dev w h t then Inl DimensionMismatch else Inr ())"
  by (auto simp: assert_size_def assert_equal_def size_differs_def)

lemma assert_sizes_eq:
  "assert_sizes dev w h cs =
     (if \<exists>t \<in> set cs. size_differs dev w h t then Inl DimensionMismatch else Inr ())"
  by (induction cs) (auto simp: assert_size_eq)

lemma calls_Framebuffer_new:
  "\<exists>rest. calls (snd (Framebuffer_new gl dev w h cols ds dOnly)) =
            calls dev @ CreateFramebuffer (createFramebuffer gl (calls dev)) # rest"
proof -
  let ?fb = "\<lparr>width = w, height = h, glFramebuffer = None,
              glColorAttachments = map (\<lambda>i. COLOR_ATTACHMENT0 + i) [0..<length cols],
              framebufferTarget = None, colors = cols, depthStencil = ds,
              depthOnly = (case dOnly of None \<Rightarrow> True | Some b \<Rightarrow> b)\<rparr>"
  obtain r dev4 where a: "init_attach gl ?fb dev = (r, dev4)"
    by (cases "init_attach gl ?fb dev")
  have "calls dev4 = calls (snd (init_attach gl ?fb dev))"
    using a by simp
  then obtain r1 where c4: "calls dev4 =
      calls dev @ CreateFramebuffer (createFramebuffer gl (calls dev)) # r1"
    by (simp add: calls_init_attach)
  obtain r2 where c5: "calls (stackDrawFramebuffer_pop dev4) = calls dev4 @ r2"
    by (simp add: calls_pop)
  have "\<exists>rest. calls (snd (snd (Framebuffer_init gl ?fb dev))) =
      calls dev @ CreateFramebuffer (createFramebuffer gl (calls dev)) # rest"
    by (cases r)
      (simp_all add: Framebuffer_init_def a Let_def calls_issue c4 c5 split: option.splits)
  moreover have "snd (Framebuffer_new gl dev w h cols ds dOnly) =
      snd (snd (Framebuffer_init gl ?fb dev))"
    by (simp add: Framebuffer_new_def split: prod.splits sum.splits)
  ultimately show ?thesis
    by simp
qed

text \<open>
  C2. Every factory checks before it constructs. With an empty color list the three
  factories that take colors fail with EmptyAttachmentList; with a color texture, or the
  depth or depth-stencil texture, whose size differs from the declared size, the factory
  fails with DimensionMismatch; and in each of these cases the world is untouched, so no
  call has been issued and no framebuffer object created. When the checks pass, the
  factory is the constructor, and the first call the constructor issues creates the
  framebuffer object.
\<close>

theorem factories_check_first:
  "(color_list color = [] \<longrightarrow>
      Framebuffer_withColor gl dev w h color = (Inl EmptyAttachmentList, dev) \<and>
      Framebuffer_withColorDepth gl dev w h color d = (Inl EmptyAttachmentList, dev) \<and>
      Framebuffer_withColorDepthStencil gl dev w h color d = (Inl EmptyAttachmentList, dev)) \<and>
   (color_list color \<noteq> [] \<and> (\<exists>t \<in> set (color_list color). size_differs dev w h t) \<longrightarrow>
      Framebuffer_withColor gl dev w h color = (Inl DimensionMismatch, dev) \<and>
      Framebuffer_withColorDepth gl dev w h color d = (Inl DimensionMismatch, dev) \<and>
      Framebuffer_withColorDepthStencil gl dev w h color d = (Inl DimensionMismatch, dev)) \<and>
   (size_differs dev w h d \<longrightarrow>
      Framebuffer_withDepth gl dev w h d = (Inl DimensionMismatch, dev) \<and>
      Framebuffer_withDepthStencil gl dev w h d = (Inl DimensionMismatch, dev) \<and>
      (color_list color \<noteq> [] \<longrightarrow>
         Framebuffer_withColorDepth gl dev w h color d = (Inl DimensionMismatch, dev) \<and>
         Framebuffer_withColorDepthStencil gl dev w h color d = (Inl DimensionMismatch, dev))) \<and>
   (color_list color \<noteq> [] \<and> (\<forall>t \<in> set (color_list color). \<not> size_differs dev w h t) \<longrightarrow>
      Framebuffer_withColor gl dev w h color =
        Framebuffer_new gl dev w h (color_list color) None None \<and>
      (\<not> size_differs dev w h d \<longrightarrow>
         Framebuffer_withColorDepth gl dev w h color d =
           Framebuffer_new gl dev w h (color_list color) (Some d) (Some True) \<and>
         Framebuffer_withColorDepthStencil gl dev w h color d =
           Framebuffer_new gl dev w h (color_list color) (Some d) (Some False))) \<and>
   (\<not> size_differs dev w h d \<longrightarrow>
      Framebuffer_withDepth gl dev w h d = Framebuffer_new gl dev w h [] (Some d) (Some True) \<and>
      Framebuffer_withDepthStencil gl dev w h d =
        Framebuffer_new gl dev w h [] (Some d) (Some False)) \<and>
   (\<exists>rest. calls (snd (Framebuffer_new gl dev w h cols ds dOnly)) =
             calls dev @ CreateFramebuffer (createFramebuffer gl (calls dev)) # rest)"
proof -
  have empty: "color_list color = [] \<longrightarrow>
      Framebuffer_withColor gl dev w h color = (Inl EmptyAttachmentList, dev) \<and>
      Framebuffer_withColorDepth gl dev w h color d = (Inl EmptyAttachmentList, dev) \<and>
      Framebuffer_withColorDepthStencil gl dev w h color d = (Inl EmptyAttachmentList, dev)"
    by (simp add: Framebuffer_withColor_def Framebuffer_withColorDepth_def
        Framebuffer_withColorDepthStencil_def assert_nonEmpty_def Let_def)
  have colour: "color_list color \<noteq> [] \<and> (\<exists>t \<in> set (color_list color). size_differs dev w h t) \<longrightarrow>
      Framebuffer_withColor gl dev w h color = (Inl DimensionMismatch, dev) \<and>
      Framebuffer_withColorDepth gl dev w h color d = (Inl DimensionMismatch, dev) \<and>
      Framebuffer_withColorDepthStencil gl dev w h color d = (Inl DimensionMismatch, dev)"
    by (simp add: Framebuffer_withColor_def Framebuffer_withColorDepth_def
        Framebuffer_withColorDepthStencil_def assert_nonEmpty_def assert_sizes_eq Let_def)
  have deep: "size_differs dev w h d \<longrightarrow>
      Framebuffer_withDepth gl dev w h d = (Inl DimensionMismatch, dev) \<and>
      Framebuffer_withDepthStencil gl dev w h d = (Inl DimensionMismatch, dev) \<and>
      (color_list color \<noteq> [] \<longrightarrow>
         Framebuffer_withColorDepth gl dev w h color d = (Inl DimensionMismatch, dev) \<and>
         Framebuffer_withColorDepthStencil gl dev w h color d = (Inl DimensionMismatch, dev))"
    by (simp add: Framebuffer_withDepth_def Framebuffer_withDepthStencil_def
        Framebuffer_withColorDepth_def Framebuffer_withColorDepthStencil_def
        assert_nonEmpty_def assert_sizes_eq assert_size_eq Let_def)
  have pass: "color_list color \<noteq> [] \<and> (\<forall>t \<in> set (color_list color). \<not> size_differs dev w h t) \<longrightarrow>
      Framebuffer_withColor gl dev w h color =
        Framebuffer_new gl dev w h (color_list color) None None \<and>
      (\<not> size_differs dev w h d \<longrightarrow>
         Framebuffer_withColorDepth gl dev w h color d =
           Framebuffer_new gl dev w h (color_list color) (Some d) (Some True) \<and>
         Framebuffer_withColorDepthStencil gl dev w h color d =
           Framebuffer_new gl dev w h (color_list color) (Some d) (Some False))"
    by (simp add: Framebuffer_withColor_def Framebuffer_withColorDepth_def
        Framebuffer_withColorDepthStencil_def assert_nonEmpty_def assert_sizes_eq
        assert_size_eq Let_def)
  have pass_depth: "\<not> size_differs dev w h d \<longrightarrow>
      Framebuffer_withDepth gl dev w h d = Framebuffer_new gl dev w h [] (Some d) (Some True) \<and>
      Framebuffer_withDepthStencil gl dev w h d =
        Framebuffer_new gl dev w h [] (Some d) (Some False)"
    by (simp add: Framebuffer_withDepth_def Framebuffer_withDepthStencil_def assert_size_eq)
  show ?thesis
    using empty colour deep pass pass_depth calls_Framebuffer_new [of gl dev w h cols ds dOnly]
    by (intro conjI)
qed

theorem factories_check_first_witness:
  "Framebuffer_withColor gl_example dev_example 256 256 (Single 0) =
     (Inl DimensionMismatch, dev_example) \<and>
   Framebuffer_withColorDepth gl_example dev_example 256 256 (Many [1, 0]) 2 =
     (Inl DimensionMismatch, dev_example) \<and>
   Framebuffer_withDepth gl_example dev_example 128 256 0 = (Inl DimensionMismatch, dev_example) \<and>
   Framebuffer_withDepthStencil gl_example dev_example 128 256 0 =
     (Inl DimensionMismatch, dev_example) \<and>
   Framebuffer_withColorDepthStencil gl_example dev_example 128 128 (Single 0) 1 =
     (Inl DimensionMismatch, dev_example) \<and>
   Framebuffer_withColor gl_example dev_example 256 256 (Many []) =
     (Inl EmptyAttachmentList, dev_example) \<and>
   Framebuffer_withColorDepth gl_example dev_example 256 256 (Many []) 0 =
     (Inl EmptyAttachmentList, dev_example) \<and>
   Framebuffer_withColor gl_example dev_example 256 256 (Single 1) =
     Framebuffer_new gl_example dev_example 256 256 [1] None None \<and>
   hd (calls (snd (Framebuffer_new gl_example dev_example 256 256 [1] None None))) =
     CreateFramebuffer (Some 5)"
proof -
  have d0: "size_differs dev_example 256 256 0" "size_differs dev_example 128 256 0"
    and d1: "\<not> size_differs dev_example 256 256 1" "size_differs dev_example 128 128 1"
    and d00: "\<not> size_differs dev_example 128 128 0"
    by (simp_all add: size_differs_def dev_example_def)
  have a: "Framebuffer_withColor gl_example dev_example 256 256 (Single 0) =
      (Inl DimensionMismatch, dev_example)"
    using factories_check_first [of "Single 0" gl_example dev_example 256 256] d0 by simp
  have b: "Framebuffer_withColorDepth gl_example dev_example 256 256 (Many [1, 0]) 2 =
      (Inl DimensionMismatch, dev_example)"
    using factories_check_first [of "Many [1, 0]" gl_example dev_example 256 256 2] d0 by simp
  have c: "Framebuffer_withDepth gl_example dev_example 128 256 0 =
        (Inl DimensionMismatch, dev_example) \<and>
      Framebuffer_withDepthStencil gl_example dev_example 128 256 0 =
        (Inl DimensionMismatch, dev_example)"
    using factories_check_first [of "Single 0" gl_example dev_example 128 256 0] d0 by simp
  have e: "Framebuffer_withColorDepthStencil gl_example dev_example 128 128 (Single 0) 1 =
      (Inl DimensionMismatch, dev_example)"
    using factories_check_first [of "Single 0" gl_example dev_example 128 128 1] d1 by simp
  have f: "Framebuffer_withColor gl_example dev_example 256 256 (Many []) =
        (Inl EmptyAttachmentList, dev_example) \<and>
      Framebuffer_withColorDepth gl_example dev_example 256 256 (Many []) 0 =
        (Inl EmptyAttachmentList, dev_example)"
    using factories_check_first [of "Many []" gl_example dev_example 256 256 0] by simp
  have g: "Framebuffer_withColor gl_example dev_example 256 256 (Single 1) =
      Framebuffer_new gl_example dev_example 256 256 [1] None None"
    using factories_check_first [of "Single 1" gl_example dev_example 256 256] d1 by simp
  have "\<exists>rest. calls (snd (Framebuffer_new gl_example dev_example 256 256 [1] None None)) =
      calls dev_example @ CreateFramebuffer (createFramebuffer gl_example (calls dev_example)) # rest"
    using factories_check_first [of "Single 1" gl_example dev_example 256 256 0 "[1]" None None]
    by blast
  then have i: "hd (calls (snd (Framebuffer_new gl_example dev_example 256 256 [1] None None))) =
      CreateFramebuffer (Some 5)"
    by (auto simp: dev_example_def gl_example_def)
  show ?thesis
    using a b c e f g i by simp
qed

section \<open>Command.locate\<close>

text \<open>
  C5 (the code differs). The identifier \<open>a_position1\<close> is not an integer literal, and the
  program has no attribute of that name. \<open>INT_PATTERN\<close> still accepts it, because its
  second alternative is anchored at the end only, and \<open>locate\<close> passes the entry
  through under the key \<open>a_position1\<close> without asking for a location and without failing.
  So is \<open>0abc\<close>, which the first alternative accepts. The identifier
  \<open>a_position\<close> on the same program fails with MissingAttributeLocation.
\<close>

theorem locate_not_an_integer_example:
  "INT_PATTERN_test ''a_position1'' \<and>
   getAttribLocation gl_example (glProgram cmd_example) ''a_position1'' = UNKNOWN_ATTRIB_LOCATION \<and>
   Command_locate gl_example cmd_example ([(''a_position1'', 7 :: nat)], ()) =
     Inr ([''a_position1'' \<mapsto> 7], ()) \<and>
   Command_locate gl_example cmd_example ([(''0abc'', 7 :: nat)], ()) =
     Inr ([''0abc'' \<mapsto> 7], ()) \<and>
   Command_locate gl_example cmd_example ([(''a_position'', 7 :: nat)], ()) =
     Inl (MissingAttributeLocation ''a_position'')"
  by (simp add: Command_locate_def INT_PATTERN_test_def is_digit_def is_nonzero_digit_def
      UNKNOWN_ATTRIB_LOCATION_def gl_example_def cmd_example_def)

end
